theory Spec2Isabelle
  imports Complex_Main "HOL-Library.Sublist"
begin

section \<open>Values exchanged with the language model\<close>

text \<open>
  The chart intent is the result of \<^verbatim>\<open>json.loads\<close>: a Python value built from
  \<^verbatim>\<open>None\<close>, booleans, integers, floats, strings, lists and dictionaries with string keys.
  A dictionary is an association list in insertion order; a float is carried by its
  \<^verbatim>\<open>repr\<close>, the only observation besides its truth value that the code makes of it.
  Strings are read as ASCII text.
\<close>

datatype json =
    JNull
  | JBool bool
  | JInt int
  | JFloat string
  | JStr string
  | JArr "json list"
  | JObj "(string \<times> json) list"

type_synonym dict = "(string \<times> json) list"

text \<open>
  The messages of the exceptions raised in \<^verbatim>\<open>llm_handler.py\<close> (the first group) and in
  \<^verbatim>\<open>chart_generator.py\<close> and \<^verbatim>\<open>data_handler.py\<close> (the second). \<open>LibraryError\<close> stands
  for an exception raised inside pandas or plotly.
\<close>

datatype message =
    EmptyText
  | NoJsonFound
  | UnexpectedClosing
  | MismatchedBrackets
  | UnbalancedBrackets
  | ColumnNotFound json
  | ValidationFailed message
  | AttributeError
  | TypeError
  | NoRequiredColumns
  | NoNumericColumns
  | EmptyAfterPreparation
  | ColumnMissing
  | NoValidNumeric
  | CannotConvert message
  | UnsupportedChartType
  | EmptyDataframe
  | NoDataMatches
  | UnsupportedAggregation
  | XAxisNotFound
  | YAxisNotFound
  | Requires string
  | HeatmapNeedsTwo
  | NotNumericNoFallback
  | UnsupportedOperator
  | ErrorApplyingFilter message
  | ErrorCreating string message
  | ErrorGenerating message
  | LibraryError

datatype error =
    ValueError message
  | JSONDecodeError string
  | Exception message

section \<open>Model Bridge: \<^verbatim>\<open>extract_json_from_text\<close>\<close>

text \<open>\<^verbatim>\<open>str.find\<close> for a single character: the lowest index, or \<open>-1\<close>.\<close>

fun str_find :: "char \<Rightarrow> string \<Rightarrow> int" where
  "str_find c [] = - 1"
| "str_find c (x # xs) =
     (if x = c then 0 else (let r = str_find c xs in if r = - 1 then - 1 else r + 1))"

text \<open>
  The loop \<^verbatim>\<open>for i in range(start_idx, len(text))\<close> with its list \<^verbatim>\<open>stack\<close>
  (\<^verbatim>\<open>append\<close> and \<^verbatim>\<open>pop\<close> work at the end of the list). The result is \<^verbatim>\<open>end_idx\<close>,
  which is still \<open>-1\<close> when the range is exhausted.
\<close>

function scan_loop :: "string \<Rightarrow> char list \<Rightarrow> nat \<Rightarrow> error + int" where
  "scan_loop text stack i =
     (if i < length text then
        (let ch = text ! i in
         if ch = CHR ''{'' \<or> ch = CHR ''['' then scan_loop text (stack @ [ch]) (i + 1)
         else if ch = CHR ''}'' \<or> ch = CHR '']'' then
           (if stack = [] then Inl (ValueError UnexpectedClosing)
            else
              (let stack_pop = last stack; stack' = butlast stack in
               if (stack_pop = CHR ''{'' \<and> ch \<noteq> CHR ''}'') \<or> (stack_pop = CHR ''['' \<and> ch \<noteq> CHR '']'')
               then Inl (ValueError MismatchedBrackets)
               else if stack' = [] then Inr (int i + 1)
               else scan_loop text stack' (i + 1)))
         else scan_loop text stack (i + 1))
      else Inr (- 1))"
  by pat_completeness auto
termination
  by (relation "measure (\<lambda>(text, stack, i). length text - i)") auto

declare scan_loop.simps [simp del]

text \<open>
  The function itself. \<^verbatim>\<open>json.loads\<close> belongs to the standard library and is a
  parameter: \<open>None\<close> stands for its \<^verbatim>\<open>JSONDecodeError\<close>.
\<close>

definition extract_json_from_text :: "(string \<Rightarrow> json option) \<Rightarrow> string \<Rightarrow> error + json" where
  "extract_json_from_text loads text =
     (if text = [] then Inl (ValueError EmptyText)
      else
        (let idx_brace = str_find (CHR ''{'') text;
             idx_bracket = str_find (CHR ''['') text;
             candidates = filter (\<lambda>i. i \<noteq> - 1) [idx_brace, idx_bracket]
         in if candidates = [] then Inl (ValueError NoJsonFound)
            else
              (let start_idx = nat (min_list candidates) in
               case scan_loop text [] start_idx of
                 Inl e \<Rightarrow> Inl e
               | Inr end_idx \<Rightarrow>
                   if end_idx = - 1 then Inl (ValueError UnbalancedBrackets)
                   else
                     (let json_str = take (nat end_idx - start_idx) (drop start_idx text) in
                      case loads json_str of
                        None \<Rightarrow> Inl (JSONDecodeError json_str)
                      | Some v \<Rightarrow> Inr v))))"

subsection \<open>The extraction as the specification words it\<close>

text \<open>
  A second description, independent of the index loop: the bracket stack as a fold over
  a prefix of the text (\<open>None\<close> once a closing bracket does not match the innermost open
  one), and the payload as the shortest non-empty prefix, from the first opening bracket
  on, at which the stack is empty.
\<close>

definition is_open :: "char \<Rightarrow> bool" where
  "is_open c = (c = CHR ''{'' \<or> c = CHR ''['')"

definition is_close :: "char \<Rightarrow> bool" where
  "is_close c = (c = CHR ''}'' \<or> c = CHR '']'')"

fun bracket_step :: "char list option \<Rightarrow> char \<Rightarrow> char list option" where
  "bracket_step None c = None"
| "bracket_step (Some st) c =
     (if is_open c then Some (c # st)
      else if is_close c then
        (case st of
           [] \<Rightarrow> None
         | b # st' \<Rightarrow>
             if (b = CHR ''{'' \<and> c = CHR ''}'') \<or> (b = CHR ''['' \<and> c = CHR '']'') then Some st' else None)
      else Some st)"

definition stack_after :: "string \<Rightarrow> char list option" where
  "stack_after p = foldl bracket_step (Some []) p"

definition settled :: "char list option \<Rightarrow> bool" where
  "settled s = (s = Some [] \<or> s = None)"

definition json_payload :: "string \<Rightarrow> string option" where
  "json_payload text =
     (case find (\<lambda>p. settled (stack_after p)) (tl (prefixes (dropWhile (\<lambda>c. \<not> is_open c) text))) of
        None \<Rightarrow> None
      | Some p \<Rightarrow> if stack_after p = Some [] then Some p else None)"

definition first_settled :: "char list option \<Rightarrow> string \<Rightarrow> string option" where
  "first_settled s xs = find (\<lambda>p. settled (foldl bracket_step s p)) (tl (prefixes xs))"

fun malformed_model_output :: "error + json \<Rightarrow> bool" where
  "malformed_model_output (Inl (ValueError m)) =
     (m = EmptyText \<or> m = NoJsonFound \<or> m = UnexpectedClosing \<or> m = MismatchedBrackets \<or>
      m = UnbalancedBrackets)"
| "malformed_model_output _ = False"

fun parsed :: "(string \<Rightarrow> json option) \<Rightarrow> string \<Rightarrow> error + json" where
  "parsed loads s = (case loads s of None \<Rightarrow> Inl (JSONDecodeError s) | Some v \<Rightarrow> Inr v)"


text \<open>
  The two texts of the specification's example: prose and a fenced block around
  \<^verbatim>\<open>{"a":1}\<close>, and the unbalanced \<^verbatim>\<open>{"a": [1,2}\<close>. \<open>CHR 0x0A\<close> is the newline and
  \<open>CHR 0x22\<close> the double quote.
\<close>

definition example_text :: string where
  "example_text = ''Sure! Here is it: ```json'' @ [CHR 0x0A] @ ''{'' @ [CHR 0x22] @ ''a'' @ [CHR 0x22] @ '':1}'' @ [CHR 0x0A] @ ''```'' @ [CHR 0x0A] @ ''Thanks''"

definition example_payload :: string where
  "example_payload = ''{'' @ [CHR 0x22] @ ''a'' @ [CHR 0x22] @ '':1}''"

definition unbalanced_text :: string where
  "unbalanced_text = ''{'' @ [CHR 0x22] @ ''a'' @ [CHR 0x22] @ '': [1,2}''"

subsection \<open>Python helpers\<close>

fun truthy :: "json \<Rightarrow> bool" where
  "truthy JNull = False"
| "truthy (JBool b) = b"
| "truthy (JInt i) = (i \<noteq> 0)"
| "truthy (JFloat r) = (r \<noteq> ''0.0'' \<and> r \<noteq> ''-0.0'')"
| "truthy (JStr s) = (s \<noteq> [])"
| "truthy (JArr xs) = (xs \<noteq> [])"
| "truthy (JObj d) = (d \<noteq> [])"

definition py_or :: "json \<Rightarrow> json \<Rightarrow> json" where
  "py_or a b = (if truthy a then a else b)"

definition dict_has :: "dict \<Rightarrow> string \<Rightarrow> bool" where
  "dict_has d k = (map_of d k \<noteq> None)"

definition dict_get_default :: "dict \<Rightarrow> string \<Rightarrow> json \<Rightarrow> json" where
  "dict_get_default d k dflt = (case map_of d k of None \<Rightarrow> dflt | Some v \<Rightarrow> v)"

definition dict_get :: "dict \<Rightarrow> string \<Rightarrow> json" where
  "dict_get d k = dict_get_default d k JNull"

fun dict_set :: "string \<Rightarrow> json \<Rightarrow> dict \<Rightarrow> dict" where
  "dict_set k v [] = [(k, v)]"
| "dict_set k v (p # ps) = (if fst p = k then (k, v) # ps else p # dict_set k v ps)"

text \<open>
  A string is the list of its code points, each below 256 (the Latin-1 range);
  \<^verbatim>\<open>str.lower\<close>, \<^verbatim>\<open>str.strip\<close> and \<^verbatim>\<open>str.capitalize\<close> are Python's on that range. The
  capitals of U+00B5 and U+00FF lie beyond it, and \<open>upper_char\<close> leaves these two
  characters as they are.
\<close>

definition upper_letters :: string where
  "upper_letters =
     ''ABCDEFGHIJKLMNOPQRSTUVWXYZ'' @
       [CHR 0xC0, CHR 0xC1, CHR 0xC2, CHR 0xC3, CHR 0xC4, CHR 0xC5, CHR 0xC6, CHR 0xC7,
        CHR 0xC8, CHR 0xC9, CHR 0xCA, CHR 0xCB, CHR 0xCC, CHR 0xCD, CHR 0xCE, CHR 0xCF,
        CHR 0xD0, CHR 0xD1, CHR 0xD2, CHR 0xD3, CHR 0xD4, CHR 0xD5, CHR 0xD6, CHR 0xD8,
        CHR 0xD9, CHR 0xDA, CHR 0xDB, CHR 0xDC, CHR 0xDD, CHR 0xDE]"

definition lower_letters :: string where
  "lower_letters =
     ''abcdefghijklmnopqrstuvwxyz'' @
       [CHR 0xE0, CHR 0xE1, CHR 0xE2, CHR 0xE3, CHR 0xE4, CHR 0xE5, CHR 0xE6, CHR 0xE7,
        CHR 0xE8, CHR 0xE9, CHR 0xEA, CHR 0xEB, CHR 0xEC, CHR 0xED, CHR 0xEE, CHR 0xEF,
        CHR 0xF0, CHR 0xF1, CHR 0xF2, CHR 0xF3, CHR 0xF4, CHR 0xF5, CHR 0xF6, CHR 0xF8,
        CHR 0xF9, CHR 0xFA, CHR 0xFB, CHR 0xFC, CHR 0xFD, CHR 0xFE]"

definition lower_char :: "char \<Rightarrow> char" where
  "lower_char c = (case map_of (zip upper_letters lower_letters) c of None \<Rightarrow> c | Some l \<Rightarrow> l)"

definition upper_char :: "char \<Rightarrow> char" where
  "upper_char c = (case map_of (zip lower_letters upper_letters) c of None \<Rightarrow> c | Some u \<Rightarrow> u)"

definition title_char :: "char \<Rightarrow> string" where
  "title_char c = (if c = CHR 0xDF then ''Ss'' else [upper_char c])"

definition is_space :: "char \<Rightarrow> bool" where
  "is_space c =
     (c \<in> set [CHR 0x09, CHR 0x0A, CHR 0x0B, CHR 0x0C, CHR 0x0D,
                CHR 0x1C, CHR 0x1D, CHR 0x1E, CHR 0x1F, CHR 0x20, CHR 0x85, CHR 0xA0])"

definition str_lower :: "string \<Rightarrow> string" where
  "str_lower s = map lower_char s"

definition str_strip :: "string \<Rightarrow> string" where
  "str_strip s = rev (dropWhile is_space (rev (dropWhile is_space s)))"

definition str_capitalize :: "string \<Rightarrow> string" where
  "str_capitalize s = (case s of [] \<Rightarrow> [] | c # cs \<Rightarrow> title_char c @ map lower_char cs)"

subsection \<open>\<^verbatim>\<open>str()\<close> of a value\<close>

function nat_digits :: "nat \<Rightarrow> string" where
  "nat_digits n =
     (if n < 10 then [''0123456789'' ! n]
      else nat_digits (n div 10) @ [''0123456789'' ! (n mod 10)])"
  by pat_completeness auto

termination
  by (relation "measure id") auto

declare nat_digits.simps [simp del]

definition int_repr :: "int \<Rightarrow> string" where
  "int_repr i = (if i < 0 then ''-'' @ nat_digits (nat (- i)) else nat_digits (nat i))"

definition printable :: "char \<Rightarrow> bool" where
  "printable c =
     (let n = (of_char c :: nat) in \<not> (n < 32 \<or> (127 \<le> n \<and> n \<le> 160) \<or> n = 173))"

definition char_escape :: "char \<Rightarrow> char \<Rightarrow> string" where
  "char_escape q c =
     (if c = q \<or> c = CHR 0x5C then [CHR 0x5C, c]
      else if c = CHR 0x09 then [CHR 0x5C, CHR ''t'']
      else if c = CHR 0x0A then [CHR 0x5C, CHR ''n'']
      else if c = CHR 0x0D then [CHR 0x5C, CHR ''r'']
      else if \<not> printable c then
        [CHR 0x5C, CHR ''x'', ''0123456789abcdef'' ! ((of_char c :: nat) div 16),
         ''0123456789abcdef'' ! ((of_char c :: nat) mod 16)]
      else [c])"

definition str_repr :: "string \<Rightarrow> string" where
  "str_repr s =
     (let q = (if CHR 0x27 \<in> set s \<and> CHR 0x22 \<notin> set s then CHR 0x22 else CHR 0x27)
      in [q] @ concat (map (char_escape q) s) @ [q])"

fun str_join :: "string \<Rightarrow> string list \<Rightarrow> string" where
  "str_join sep [] = []"
| "str_join sep [x] = x"
| "str_join sep (x # y # ys) = x @ sep @ str_join sep (y # ys)"

fun py_repr :: "json \<Rightarrow> string"
  and repr_elems :: "json list \<Rightarrow> string list"
  and repr_items :: "(string \<times> json) list \<Rightarrow> string list" where
  "py_repr JNull = ''None''"
| "py_repr (JBool b) = (if b then ''True'' else ''False'')"
| "py_repr (JInt i) = int_repr i"
| "py_repr (JFloat r) = (if r = [] then ''nan'' else r)"
| "py_repr (JStr s) = str_repr s"
| "py_repr (JArr xs) = ''['' @ str_join '', '' (repr_elems xs) @ '']''"
| "py_repr (JObj d) = ''{'' @ str_join '', '' (repr_items d) @ ''}''"
| "repr_elems [] = []"
| "repr_elems (x # xs) = py_repr x # repr_elems xs"
| "repr_items [] = []"
| "repr_items ((k, v) # d) = (str_repr k @ '': '' @ py_repr v) # repr_items d"

definition py_str :: "json \<Rightarrow> string" where
  "py_str v = (case v of JStr s \<Rightarrow> s | _ \<Rightarrow> py_repr v)"

subsection \<open>Specification Normalizer: \<^verbatim>\<open>validate_and_enhance_spec\<close>\<close>

record metadata =
  columns :: "string list"
  numerical_columns :: "string list"
  categorical_columns :: "string list"
  datetime_columns :: "string list"
  row_count :: nat

text \<open>\<^verbatim>\<open>x in names\<close> for a value and a list of column names.\<close>

definition json_in :: "json \<Rightarrow> string list \<Rightarrow> bool" where
  "json_in v names = (case v of JStr s \<Rightarrow> s \<in> set names | _ \<Rightarrow> False)"

definition op_map :: "(string \<times> string) list" where
  "op_map =
     [(''='', ''==''), (''=='', ''==''), (''equals'', ''==''), (''is'', ''==''),
      (''!='', ''!=''), (''neq'', ''!=''), (''not equals'', ''!=''),
      (''>'', ''>''), (''<'', ''<''), (''>='', ''>=''), (''<='', ''<='')]"

definition normalize_operator :: "json \<Rightarrow> json" where
  "normalize_operator op =
     (case op of
        JStr s \<Rightarrow>
          (let op_clean = str_lower (str_strip s) in
           JStr (case map_of op_map op_clean of None \<Rightarrow> op_clean | Some v \<Rightarrow> v))
      | _ \<Rightarrow> op)"

definition filter_column :: "dict \<Rightarrow> json" where
  "filter_column f =
     py_or (dict_get f ''column'')
       (py_or (dict_get f ''column_name'') (py_or (dict_get f ''col'') (dict_get f ''field'')))"

definition filter_operator :: "dict \<Rightarrow> json" where
  "filter_operator f =
     py_or (dict_get f ''operator'')
       (py_or (dict_get f ''op'') (py_or (dict_get f ''relation'') (dict_get f ''operator_symbol'')))"

definition filter_value :: "dict \<Rightarrow> json" where
  "filter_value f =
     (if dict_has f ''value'' then dict_get f ''value''
      else if dict_has f ''val'' then dict_get f ''val''
      else if dict_has f ''v'' then dict_get f ''v''
      else JNull)"

text \<open>
  The body of \<^verbatim>\<open>for f in raw_filters\<close>: \<open>Some\<close> is the clause appended to
  \<^verbatim>\<open>normalized_filters\<close>, \<open>None\<close> an iteration that appends nothing.
\<close>

definition normalize_filter :: "string list \<Rightarrow> json \<Rightarrow> json option" where
  "normalize_filter all_columns f =
     (case f of
        JObj d \<Rightarrow>
          (let col = filter_column d;
               op_norm = normalize_operator (filter_operator d);
               val = filter_value d
           in if truthy col \<and> truthy op_norm \<and> val \<noteq> JNull then
                (if json_in col all_columns then
                   Some (JObj [(''column'', col), (''operator'', op_norm), (''value'', val)])
                 else
                   (case filter (\<lambda>c. str_lower c = str_lower (py_str col)) all_columns of
                      [] \<Rightarrow> None
                    | m # _ \<Rightarrow>
                        Some (JObj [(''column'', JStr m), (''operator'', op_norm), (''value'', val)])))
              else None)
      | _ \<Rightarrow> None)"

definition normalize_filters :: "string list \<Rightarrow> json list \<Rightarrow> json list" where
  "normalize_filters all_columns raw_filters = List.map_filter (normalize_filter all_columns) raw_filters"

definition set_filters :: "dict \<Rightarrow> string list \<Rightarrow> dict" where
  "set_filters spec all_columns =
     (case dict_get spec ''filters'' of
        JArr raw_filters \<Rightarrow> dict_set ''filters'' (JArr (normalize_filters all_columns raw_filters)) spec
      | _ \<Rightarrow> spec)"

definition clear_missing :: "string \<Rightarrow> string list \<Rightarrow> dict \<Rightarrow> dict" where
  "clear_missing k all_columns spec =
     (if truthy (dict_get spec k) \<and> \<not> json_in (dict_get spec k) all_columns
      then dict_set k JNull spec else spec)"

definition default_aggregation :: "metadata \<Rightarrow> dict \<Rightarrow> dict" where
  "default_aggregation md spec =
     (if \<not> truthy (dict_get spec ''aggregation'') then
        (if json_in (dict_get spec ''y_axis'') (numerical_columns md)
         then dict_set ''aggregation'' (JStr ''mean'') spec
         else dict_set ''aggregation'' (JStr ''count'') spec)
      else spec)"

definition default_title :: "dict \<Rightarrow> message + dict" where
  "default_title spec =
     (if \<not> truthy (dict_get spec ''title'') then
        (case dict_get_default spec ''chart_type'' (JStr ''Chart'') of
           JStr s \<Rightarrow> Inr (dict_set ''title'' (JStr (str_capitalize s @ '' Chart'')) spec)
         | _ \<Rightarrow> Inl AttributeError)
      else Inr spec)"

definition default_labels :: "dict \<Rightarrow> dict" where
  "default_labels spec =
     (let spec' = (if \<not> truthy (dict_get spec ''x_label'')
                   then dict_set ''x_label'' (dict_get spec ''x_axis'') spec else spec)
      in if \<not> truthy (dict_get spec' ''y_label'')
         then dict_set ''y_label'' (dict_get_default spec' ''y_axis'' (JStr ''Value'')) spec'
         else spec')"

definition validate_and_enhance_spec :: "dict \<Rightarrow> metadata \<Rightarrow> error + dict" where
  "validate_and_enhance_spec spec md =
     (let all_columns = columns md;
          spec1 = set_filters spec all_columns
      in if truthy (dict_get spec1 ''x_axis'') \<and> \<not> json_in (dict_get spec1 ''x_axis'') all_columns
         then Inl (ValueError (ValidationFailed (ColumnNotFound (dict_get spec1 ''x_axis''))))
         else
           (let spec2 = clear_missing ''y_axis'' all_columns spec1;
                spec3 = clear_missing ''color_by'' all_columns spec2;
                spec4 = default_aggregation md spec3
            in case default_title spec4 of
                 Inl m \<Rightarrow> Inl (ValueError (ValidationFailed m))
               | Inr spec5 \<Rightarrow> Inr (default_labels spec5)))"

fun is_str :: "json \<Rightarrow> bool" where
  "is_str (JStr s) = True"
| "is_str _ = False"

definition example_metadata :: metadata where
  "example_metadata =
     \<lparr>columns = [''Age'', ''Name''], numerical_columns = [''Age''],
      categorical_columns = [''Name''], datetime_columns = [], row_count = 5\<rparr>"

definition example_clause :: json where
  "example_clause = JObj [(''col'', JStr ''Age''), (''op'', JStr ''is''), (''val'', JInt 30)]"

definition example_intent :: dict where
  "example_intent =
     [(''chart_type'', JStr ''bar''), (''x_axis'', JStr ''Name''), (''y_axis'', JStr ''sales''),
      (''filters'', JArr [example_clause, JObj [(''col'', JStr ''zip''), (''op'', JStr ''==''), (''val'', JInt 1)]])]"

definition example_canonical :: dict where
  "example_canonical =
     [(''chart_type'', JStr ''bar''), (''x_axis'', JStr ''Name''), (''y_axis'', JNull),
      (''filters'', JArr [JObj [(''column'', JStr ''Age''), (''operator'', JStr ''==''), (''value'', JInt 30)]]),
      (''aggregation'', JStr ''count''), (''title'', JStr ''Bar Chart''),
      (''x_label'', JStr ''Name''), (''y_label'', JNull)]"

definition between_intent :: dict where
  "between_intent =
     [(''chart_type'', JStr ''bar''), (''x_axis'', JStr ''Name''),
      (''filters'',
       JArr [JObj [(''column'', JStr ''Age''), (''operator'', JStr ''between''),
                   (''value'', JInt 30)]])]"

section \<open>Tables\<close>

text \<open>
  A pandas \<^verbatim>\<open>DataFrame\<close>: its columns in order, each with a label, a dtype and one cell
  per row. \<open>Null\<close> is the missing value (\<^verbatim>\<open>NaN\<close>, \<^verbatim>\<open>None\<close>, \<^verbatim>\<open>NaT\<close>). A numeric cell holds
  the value of its machine number; float64 arithmetic on these values is not computed by
  the model but asked of the library. The row index is not modelled.
\<close>

datatype dtype = Int64 | Int32 | Int16 | Float64 | Float32 | BoolDtype | Object | StringDtype | Datetime64

datatype cell = Null | IntV int | FloatV real | StrV string | BoolV bool

record column =
  col_name :: string
  col_dtype :: dtype
  col_cells :: "cell list"

type_synonym table = "column list"

definition is_null :: "cell \<Rightarrow> bool" where
  "is_null c = (c = Null)"

text \<open>The dtypes that \<^verbatim>\<open>select_dtypes(include=['number'])\<close> keeps.\<close>

definition is_number :: "dtype \<Rightarrow> bool" where
  "is_number t = (t = Int64 \<or> t = Int32 \<or> t = Int16 \<or> t = Float64 \<or> t = Float32)"

definition nrows :: "table \<Rightarrow> nat" where
  "nrows t = (case t of [] \<Rightarrow> 0 | c # _ \<Rightarrow> length (col_cells c))"

definition df_empty :: "table \<Rightarrow> bool" where
  "df_empty t = (t = [] \<or> nrows t = 0)"

definition df_columns :: "table \<Rightarrow> string list" where
  "df_columns t = map col_name t"

text \<open>\<^verbatim>\<open>df[names]\<close>: for each requested label in turn, the columns carrying it.\<close>

definition df_select :: "string list \<Rightarrow> table \<Rightarrow> table" where
  "df_select names t = concat (map (\<lambda>n. filter (\<lambda>c. col_name c = n) t) names)"

text \<open>\<^verbatim>\<open>df[column]\<close> for a single label.\<close>

definition df_column :: "table \<Rightarrow> string \<Rightarrow> column option" where
  "df_column t n = find (\<lambda>c. col_name c = n) t"

text \<open>\<^verbatim>\<open>dropna(axis=1, how='all')\<close>.\<close>

definition dropna_columns :: "table \<Rightarrow> table" where
  "dropna_columns t = filter (\<lambda>c. \<not> list_all is_null (col_cells c)) t"

text \<open>Boolean indexing \<^verbatim>\<open>df[mask]\<close>: the rows whose mask entry is true.\<close>

definition keep_rows :: "bool list \<Rightarrow> table \<Rightarrow> table" where
  "keep_rows keep t = map (\<lambda>c. c\<lparr>col_cells := map snd (filter fst (zip keep (col_cells c)))\<rparr>) t"

text \<open>\<^verbatim>\<open>dropna(how='all')\<close>: a row goes when every cell of it is missing.\<close>

definition dropna_rows :: "table \<Rightarrow> table" where
  "dropna_rows t =
     keep_rows (map (\<lambda>i. \<not> list_all (\<lambda>c. is_null (col_cells c ! i)) t) [0..<nrows t]) t"

text \<open>\<^verbatim>\<open>dropna(subset=[column])\<close>.\<close>

definition dropna_subset :: "string \<Rightarrow> table \<Rightarrow> table" where
  "dropna_subset n t =
     (case df_column t n of
        None \<Rightarrow> t
      | Some c \<Rightarrow> keep_rows (map (\<lambda>x. \<not> is_null x) (col_cells c)) t)"

definition select_dtypes_number :: "table \<Rightarrow> table" where
  "select_dtypes_number t = filter (\<lambda>c. is_number (col_dtype c)) t"

text \<open>\<^verbatim>\<open>df[column] = values\<close> for an existing label: the column is replaced in place.\<close>

definition df_setitem :: "string \<Rightarrow> dtype \<times> cell list \<Rightarrow> table \<Rightarrow> table" where
  "df_setitem n v t =
     map (\<lambda>c. if col_name c = n then c\<lparr>col_dtype := fst v, col_cells := snd v\<rparr> else c) t"

section \<open>Rendering Engine\<close>

text \<open>
  What the code asks of pandas and plotly beyond the table operations above is a
  parameter of the model: \<^verbatim>\<open>pd.to_numeric(series, errors='coerce')\<close> on the cells of a
  column (the new dtype and cells), the comparison of a column with a filter value, the
  grouping of rows, the float64 arithmetic of a correlation, and the plotly calls, which
  receive the function name, the table and the keyword arguments. \<open>None\<close> is an exception
  raised by the library.
\<close>

record 'fig library =
  to_numeric :: "cell list \<Rightarrow> (dtype \<times> cell list) option"
  series_cmp :: "string \<Rightarrow> column \<Rightarrow> json \<Rightarrow> bool list option"
  groupby_size :: "column list \<Rightarrow> (column list \<times> cell list) option"
  groupby_aggregate :: "string \<Rightarrow> column list \<Rightarrow> column \<Rightarrow> (column list \<times> dtype \<times> cell list) option"
  value_counts :: "column \<Rightarrow> (column \<times> cell list) option"
  float_pearson :: "real list \<Rightarrow> real list \<Rightarrow> cell"
  px :: "string \<Rightarrow> table \<Rightarrow> dict \<Rightarrow> 'fig option"
  fig_update :: "string \<Rightarrow> dict \<Rightarrow> 'fig \<Rightarrow> 'fig option"

subsection \<open>Correlation\<close>

text \<open>
  \<^verbatim>\<open>DataFrame.corr()\<close>: for every pair of columns, pandas' \<^verbatim>\<open>nancorr\<close> runs over the rows
  in which both are present, the column of the larger position first. The entry is \<^verbatim>\<open>NaN\<close>
  when there is no such row. When one of the two columns takes a single value on these
  rows, its running mean is that value and its sum of squared deviations is exactly zero
  in float64 as well, so the divisor is zero or \<^verbatim>\<open>NaN\<close> and the entry is \<^verbatim>\<open>NaN\<close>. In every
  other case the entry is the outcome of the float64 computation, \<open>float_pearson\<close> of the
  library, which may be a number or \<^verbatim>\<open>NaN\<close>.
\<close>

definition cell_num :: "cell \<Rightarrow> real option" where
  "cell_num c = (case c of IntV i \<Rightarrow> Some (real_of_int i) | FloatV r \<Rightarrow> Some r | _ \<Rightarrow> None)"

definition complete_pairs :: "cell list \<Rightarrow> cell list \<Rightarrow> (real \<times> real) list" where
  "complete_pairs xs ys =
     List.map_filter
       (\<lambda>(x, y). case (cell_num x, cell_num y) of (Some a, Some b) \<Rightarrow> Some (a, b) | _ \<Rightarrow> None)
       (zip xs ys)"

definition single_valued :: "real list \<Rightarrow> bool" where
  "single_valued as = (case as of [] \<Rightarrow> True | a # rest \<Rightarrow> list_all (\<lambda>b. b = a) rest)"

definition pearson :: "'fig library \<Rightarrow> cell list \<Rightarrow> cell list \<Rightarrow> cell" where
  "pearson lib xs ys =
     (let ps = complete_pairs xs ys; as = map fst ps; bs = map snd ps
      in if ps = [] then Null
         else if single_valued as \<or> single_valued bs then Null
         else float_pearson lib as bs)"

definition df_corr :: "'fig library \<Rightarrow> table \<Rightarrow> table" where
  "df_corr lib t =
     map (\<lambda>j. \<lparr>col_name = col_name (t ! j), col_dtype = Float64,
               col_cells = map (\<lambda>i. pearson lib (col_cells (t ! max i j)) (col_cells (t ! min i j)))
                             [0..<length t]\<rparr>)
       [0..<length t]"

fun error_message :: "error \<Rightarrow> message" where
  "error_message (ValueError m) = m"
| "error_message (Exception m) = m"
| "error_message (JSONDecodeError s) = LibraryError"

definition json_label :: "json \<Rightarrow> string" where
  "json_label v = (case v of JStr s \<Rightarrow> s | _ \<Rightarrow> [])"

text \<open>
  \<^verbatim>\<open>col in df.columns\<close> hashes \<^verbatim>\<open>col\<close> first: on a list or a dictionary it raises
  \<^verbatim>\<open>TypeError\<close>. Column labels are strings, so any other value is not among them.
\<close>

fun hashable :: "json \<Rightarrow> bool" where
  "hashable (JArr xs) = False"
| "hashable (JObj d) = False"
| "hashable _ = True"

definition prepare_data :: "table \<Rightarrow> json list \<Rightarrow> bool \<Rightarrow> error + table" where
  "prepare_data df columns_needed numeric_only =
     (if \<not> list_all hashable columns_needed then Inl (ValueError TypeError)
      else
        (let cols_available = filter (\<lambda>col. json_in col (df_columns df)) columns_needed in
         if cols_available = [] then Inl (ValueError NoRequiredColumns)
         else
           (let df_prep = df_select (map json_label cols_available) df;
                df_prep = dropna_columns df_prep;
                df_prep = dropna_rows df_prep
            in if numeric_only then
                 (let df_prep = select_dtypes_number df_prep in
                  if df_empty df_prep then Inl (ValueError NoNumericColumns) else Inr df_prep)
               else if df_empty df_prep then Inl (ValueError EmptyAfterPreparation)
               else Inr df_prep)))"

definition ensure_numeric :: "'fig library \<Rightarrow> table \<Rightarrow> string \<Rightarrow> error + table" where
  "ensure_numeric lib df column =
     (case df_column df column of
        None \<Rightarrow> Inl (ValueError ColumnMissing)
      | Some c \<Rightarrow>
          if col_dtype c \<noteq> Object \<and> col_dtype c \<noteq> StringDtype then Inr df
          else
            (case to_numeric lib (col_cells c) of
               None \<Rightarrow> Inl (ValueError (CannotConvert LibraryError))
             | Some v \<Rightarrow>
                 (let df = dropna_subset column (df_setitem column v df) in
                  if df_empty df then Inl (ValueError (CannotConvert NoValidNumeric))
                  else Inr df)))"

definition get_columns_for_chart :: "dict \<Rightarrow> json list" where
  "get_columns_for_chart spec =
     (if truthy (dict_get spec ''x_axis'') then [dict_get spec ''x_axis''] else []) @
     (if truthy (dict_get spec ''y_axis'') then [dict_get spec ''y_axis''] else []) @
     (if truthy (dict_get spec ''color_by'') then [dict_get spec ''color_by''] else [])"

definition wrap_error :: "string \<Rightarrow> error + 'a \<Rightarrow> error + 'a" where
  "wrap_error what r =
     (case r of Inl e \<Rightarrow> Inl (ValueError (ErrorCreating what (error_message e))) | Inr v \<Rightarrow> Inr v)"

definition px_call :: "'fig library \<Rightarrow> string \<Rightarrow> table \<Rightarrow> dict \<Rightarrow> error + 'fig" where
  "px_call lib f df kwargs =
     (case px lib f df kwargs of None \<Rightarrow> Inl (ValueError LibraryError) | Some fig \<Rightarrow> Inr fig)"

definition create_heatmap :: "'fig library \<Rightarrow> table \<Rightarrow> dict \<Rightarrow> error + 'fig" where
  "create_heatmap lib df spec =
     wrap_error ''heatmap''
       (case prepare_data df (map JStr (df_columns df)) True of
          Inl e \<Rightarrow> Inl e
        | Inr numeric_df \<Rightarrow>
            if length numeric_df < 2 then Inl (ValueError HeatmapNeedsTwo)
            else
              (let correlation_matrix = df_corr lib numeric_df in
               px_call lib ''imshow'' correlation_matrix
                 [(''title'', dict_get_default spec ''title'' (JStr ''Correlation Heatmap'')),
                  (''labels'', JObj [(''color'', JStr ''Correlation'')]),
                  (''color_continuous_scale'', JStr ''RdBu'')]))"

definition create_histogram :: "'fig library \<Rightarrow> table \<Rightarrow> dict \<Rightarrow> error + 'fig" where
  "create_histogram lib df spec =
     (let x_axis = dict_get spec ''x_axis'' in
      if \<not> truthy x_axis then Inl (ValueError (Requires ''Histogram requires x_axis''))
      else
        wrap_error ''histogram''
          (case prepare_data df [x_axis] False of
             Inl e \<Rightarrow> Inl e
           | Inr plot_df \<Rightarrow>
               (case df_column plot_df (json_label x_axis) of
                  None \<Rightarrow> Inl (ValueError LibraryError)
                | Some c \<Rightarrow>
                    (case (if col_dtype c = Object \<or> col_dtype c = StringDtype
                           then ensure_numeric lib plot_df (json_label x_axis) else Inr plot_df) of
                       Inl e \<Rightarrow> Inl e
                     | Inr plot_df \<Rightarrow>
                         (case df_column plot_df (json_label x_axis) of
                            None \<Rightarrow> Inl (ValueError LibraryError)
                          | Some c \<Rightarrow>
                              (case (if col_dtype c \<notin> {Int64, Int32, Float64, Float32} then
                                       (case df_columns (select_dtypes_number plot_df) of
                                          [] \<Rightarrow> Inl (ValueError NotNumericNoFallback)
                                        | n # _ \<Rightarrow> Inr (JStr n))
                                     else Inr x_axis) of
                                 Inl e \<Rightarrow> Inl e
                               | Inr x_axis \<Rightarrow>
                                   px_call lib ''histogram'' plot_df
                                     [(''x'', x_axis), (''nbins'', JInt 20),
                                      (''title'', dict_get_default spec ''title'' (JStr ''Histogram''))]))))))"

definition constant_column :: "cell list \<Rightarrow> bool" where
  "constant_column cs = single_valued (List.map_filter cell_num cs)"

definition heatmap_kwargs :: "dict \<Rightarrow> dict" where
  "heatmap_kwargs spec =
     [(''title'', dict_get_default spec ''title'' (JStr ''Correlation Heatmap'')),
      (''labels'', JObj [(''color'', JStr ''Correlation'')]),
      (''color_continuous_scale'', JStr ''RdBu'')]"

definition example_library :: "(string \<times> table \<times> dict) library" where
  "example_library =
     \<lparr>to_numeric = (\<lambda>cs. Some (Float64,
         map (\<lambda>c. case c of
                     StrV s \<Rightarrow> (if s = ''1'' then FloatV 1 else if s = ''2'' then FloatV 2
                               else if s = ''4'' then FloatV 4 else Null)
                   | IntV i \<Rightarrow> FloatV (real_of_int i)
                   | FloatV r \<Rightarrow> FloatV r
                   | _ \<Rightarrow> Null) cs)),
      series_cmp = (\<lambda>op c v. None),
      groupby_size = (\<lambda>keys. None),
      groupby_aggregate = (\<lambda>f keys c. None),
      value_counts = (\<lambda>c. None),
      float_pearson = (\<lambda>as bs. if as = bs then FloatV 1 else Null),
      px = (\<lambda>f df kwargs. Some (f, df, kwargs)),
      fig_update = (\<lambda>f kwargs fig. Some fig)\<rparr>"

definition constant_table :: table where
  "constant_table =
     [\<lparr>col_name = ''a'', col_dtype = Int64, col_cells = [IntV 1, IntV 1]\<rparr>,
      \<lparr>col_name = ''b'', col_dtype = Int64, col_cells = [IntV 1, IntV 2]\<rparr>]"

definition names_table :: table where
  "names_table =
     [\<lparr>col_name = ''name'', col_dtype = Object, col_cells = [StrV ''ann'', StrV ''bob'']\<rparr>,
      \<lparr>col_name = ''n'', col_dtype = Int64, col_cells = [IntV 1, IntV 2]\<rparr>]"

definition digits_table :: table where
  "digits_table =
     [\<lparr>col_name = ''v'', col_dtype = Object,
       col_cells = [StrV ''1'', StrV ''2'', StrV ''x'', StrV ''4'']\<rparr>]"

definition histogram_spec :: "string \<Rightarrow> dict" where
  "histogram_spec x = [(''chart_type'', JStr ''histogram''), (''x_axis'', JStr x)]"

subsection \<open>Aggregation\<close>

text \<open>
  \<^verbatim>\<open>reset_index\<close> turns the group keys into columns in front of the reduced column; pandas
  refuses to insert a key whose label is already taken.
\<close>

definition reset_index :: "column list \<Rightarrow> column \<Rightarrow> error + table" where
  "reset_index keys c =
     (if distinct (map col_name (keys @ [c])) then Inr (keys @ [c])
      else Inl (ValueError LibraryError))"

definition agg_map :: "(string \<times> string) list" where
  "agg_map =
     [(''sum'', ''sum''), (''mean'', ''mean''), (''count'', ''count''), (''min'', ''min''),
      (''max'', ''max'')]"

definition apply_aggregation ::
  "'fig library \<Rightarrow> table \<Rightarrow> json \<Rightarrow> json \<Rightarrow> json \<Rightarrow> json \<Rightarrow> error + table" where
  "apply_aggregation lib df agg x_axis y_axis color_by =
     (if \<not> hashable agg then Inl (ValueError TypeError)
      else
      case (case agg of JStr a \<Rightarrow> map_of agg_map a | _ \<Rightarrow> None) of
        None \<Rightarrow> Inl (ValueError UnsupportedAggregation)
      | Some func \<Rightarrow>
          if \<not> hashable x_axis then Inl (ValueError TypeError)
          else if \<not> json_in x_axis (df_columns df) then Inl (ValueError XAxisNotFound)
          else if \<not> hashable y_axis then Inl (ValueError TypeError)
          else if \<not> json_in y_axis (df_columns df) then Inl (ValueError YAxisNotFound)
          else if truthy color_by \<and> \<not> hashable color_by then Inl (ValueError TypeError)
          else
            (let by = (if truthy color_by \<and> json_in color_by (df_columns df)
                       then [x_axis, color_by] else [x_axis]);
                 keys = List.map_filter (\<lambda>k. df_column df (json_label k)) by
             in if func = ''count'' then
                  (case groupby_size lib keys of
                     None \<Rightarrow> Inl (ValueError LibraryError)
                   | Some (groups, sizes) \<Rightarrow>
                       reset_index groups
                         \<lparr>col_name = json_label y_axis, col_dtype = Int64, col_cells = sizes\<rparr>)
                else
                  (case df_column df (json_label y_axis) of
                     None \<Rightarrow> Inl (ValueError LibraryError)
                   | Some values \<Rightarrow>
                       (case groupby_aggregate lib func keys values of
                          None \<Rightarrow> Inl (ValueError LibraryError)
                        | Some (groups, t, reduced) \<Rightarrow>
                            reset_index groups
                              \<lparr>col_name = json_label y_axis, col_dtype = t, col_cells = reduced\<rparr>))))"

subsection \<open>The chart builders\<close>

text \<open>\<^verbatim>\<open>color_by if color_by and color_by in plot_df.columns else None\<close>.\<close>

definition color_arg :: "json \<Rightarrow> table \<Rightarrow> error + json" where
  "color_arg color_by plot_df =
     (if truthy color_by \<and> \<not> hashable color_by then Inl (ValueError TypeError)
      else if truthy color_by \<and> json_in color_by (df_columns plot_df) then Inr color_by
      else Inr JNull)"

definition create_bar_chart :: "'fig library \<Rightarrow> table \<Rightarrow> dict \<Rightarrow> error + 'fig" where
  "create_bar_chart lib df spec =
     (let x_axis = dict_get spec ''x_axis''; y_axis = dict_get spec ''y_axis'';
          color_by = dict_get spec ''color_by''
      in if \<not> truthy x_axis then Inl (ValueError (Requires ''Bar chart requires x_axis''))
         else
           wrap_error ''bar chart''
             (if truthy y_axis then
                (case prepare_data df [x_axis, y_axis] False of
                   Inl e \<Rightarrow> Inl e
                 | Inr plot_df \<Rightarrow>
                     (case color_arg color_by plot_df of
                        Inl e \<Rightarrow> Inl e
                      | Inr color \<Rightarrow>
                          px_call lib ''bar'' plot_df
                            [(''x'', x_axis), (''y'', y_axis), (''color'', color),
                             (''title'', dict_get_default spec ''title'' (JStr ''Bar Chart'')),
                             (''labels'', JArr [x_axis, dict_get_default spec ''x_label'' x_axis])]))
              else
                (case prepare_data df [x_axis] False of
                   Inl e \<Rightarrow> Inl e
                 | Inr plot_df \<Rightarrow>
                     (case df_column plot_df (json_label x_axis) of
                        None \<Rightarrow> Inl (ValueError LibraryError)
                      | Some c \<Rightarrow>
                          (case value_counts lib c of
                             None \<Rightarrow> Inl (ValueError LibraryError)
                           | Some (vals, counts) \<Rightarrow>
                               px_call lib ''bar''
                                 [vals\<lparr>col_name := json_label x_axis\<rparr>,
                                  \<lparr>col_name = ''count'', col_dtype = Int64, col_cells = counts\<rparr>]
                                 [(''x'', JStr ''count''), (''y'', x_axis), (''orientation'', JStr ''h''),
                                  (''title'', dict_get_default spec ''title'' (JStr ''Bar Chart''))])))))"

definition create_line_chart :: "'fig library \<Rightarrow> table \<Rightarrow> dict \<Rightarrow> error + 'fig" where
  "create_line_chart lib df spec =
     (let x_axis = dict_get spec ''x_axis''; y_axis = dict_get spec ''y_axis'';
          color_by = dict_get spec ''color_by''
      in if \<not> truthy x_axis \<or> \<not> truthy y_axis
         then Inl (ValueError (Requires ''Line chart requires both x_axis and y_axis''))
         else
           wrap_error ''line chart''
             (let cols_needed = [x_axis, y_axis] @ (if truthy color_by then [color_by] else []) in
              case prepare_data df cols_needed False of
                Inl e \<Rightarrow> Inl e
              | Inr plot_df \<Rightarrow>
                  (case color_arg color_by plot_df of
                     Inl e \<Rightarrow> Inl e
                   | Inr color \<Rightarrow>
                       px_call lib ''line'' plot_df
                         [(''x'', x_axis), (''y'', y_axis), (''color'', color),
                          (''title'', dict_get_default spec ''title'' (JStr ''Line Chart'')),
                          (''markers'', JBool True)])))"

definition create_scatter_chart :: "'fig library \<Rightarrow> table \<Rightarrow> dict \<Rightarrow> error + 'fig" where
  "create_scatter_chart lib df spec =
     (let x_axis = dict_get spec ''x_axis''; y_axis = dict_get spec ''y_axis'';
          color_by = dict_get spec ''color_by''
      in if \<not> truthy x_axis \<or> \<not> truthy y_axis
         then Inl (ValueError (Requires ''Scatter chart requires both x_axis and y_axis''))
         else
           wrap_error ''scatter chart''
             (let cols_needed = [x_axis, y_axis] @ (if truthy color_by then [color_by] else []) in
              case prepare_data df cols_needed False of
                Inl e \<Rightarrow> Inl e
              | Inr plot_df \<Rightarrow>
                  (case color_arg color_by plot_df of
                     Inl e \<Rightarrow> Inl e
                   | Inr color \<Rightarrow>
                       px_call lib ''scatter'' plot_df
                         [(''x'', x_axis), (''y'', y_axis), (''color'', color),
                          (''title'', dict_get_default spec ''title'' (JStr ''Scatter Plot''))])))"

definition create_pie_chart :: "'fig library \<Rightarrow> table \<Rightarrow> dict \<Rightarrow> error + 'fig" where
  "create_pie_chart lib df spec =
     (let x_axis = dict_get spec ''x_axis''
      in if \<not> truthy x_axis then Inl (ValueError (Requires ''Pie chart requires x_axis''))
         else
           wrap_error ''pie chart''
             (case prepare_data df [x_axis] False of
                Inl e \<Rightarrow> Inl e
              | Inr plot_df \<Rightarrow>
                  (case groupby_size lib (List.map_filter (\<lambda>k. df_column plot_df (json_label k)) [x_axis]) of
                     None \<Rightarrow> Inl (ValueError LibraryError)
                   | Some (groups, sizes) \<Rightarrow>
                       (case reset_index groups
                               \<lparr>col_name = ''count'', col_dtype = Int64, col_cells = sizes\<rparr> of
                          Inl e \<Rightarrow> Inl e
                        | Inr pie_data \<Rightarrow>
                            px_call lib ''pie'' pie_data
                              [(''names'', x_axis), (''values'', JStr ''count''),
                               (''title'', dict_get_default spec ''title'' (JStr ''Pie Chart''))]))))"

definition create_area_chart :: "'fig library \<Rightarrow> table \<Rightarrow> dict \<Rightarrow> error + 'fig" where
  "create_area_chart lib df spec =
     (let x_axis = dict_get spec ''x_axis''; y_axis = dict_get spec ''y_axis''
      in if \<not> truthy x_axis \<or> \<not> truthy y_axis
         then Inl (ValueError (Requires ''Area chart requires both x_axis and y_axis''))
         else
           wrap_error ''area chart''
             (case prepare_data df [x_axis, y_axis] False of
                Inl e \<Rightarrow> Inl e
              | Inr plot_df \<Rightarrow>
                  px_call lib ''area'' plot_df
                    [(''x'', x_axis), (''y'', y_axis),
                     (''title'', dict_get_default spec ''title'' (JStr ''Area Chart''))]))"

definition create_box_chart :: "'fig library \<Rightarrow> table \<Rightarrow> dict \<Rightarrow> error + 'fig" where
  "create_box_chart lib df spec =
     (let x_axis = dict_get spec ''color_by''; y_axis = dict_get spec ''y_axis''
      in if \<not> truthy y_axis then Inl (ValueError (Requires ''Box chart requires y_axis''))
         else
           wrap_error ''box chart''
             (let cols_needed = [y_axis] @ (if truthy x_axis then [x_axis] else []) in
              case prepare_data df cols_needed False of
                Inl e \<Rightarrow> Inl e
              | Inr plot_df \<Rightarrow>
                  (case color_arg x_axis plot_df of
                     Inl e \<Rightarrow> Inl e
                   | Inr x \<Rightarrow>
                       px_call lib ''box'' plot_df
                         [(''x'', x), (''y'', y_axis),
                          (''title'', dict_get_default spec ''title'' (JStr ''Box Plot''))])))"

text \<open>The dispatch table \<^verbatim>\<open>self.chart_functions\<close>.\<close>

definition chart_functions ::
  "(string \<times> ('fig library \<Rightarrow> table \<Rightarrow> dict \<Rightarrow> error + 'fig)) list" where
  "chart_functions =
     [(''bar'', create_bar_chart), (''line'', create_line_chart),
      (''scatter'', create_scatter_chart), (''pie'', create_pie_chart),
      (''heatmap'', create_heatmap), (''area'', create_area_chart),
      (''histogram'', create_histogram), (''box'', create_box_chart)]"

subsection \<open>Customization\<close>

definition colorscale_map :: "(string \<times> json) list" where
  "colorscale_map =
     [(''default'', JNull), (''viridis'', JStr ''viridis''), (''plasma'', JStr ''plasma''),
      (''coolwarm'', JStr ''RdBu'')]"

definition fig_call :: "'fig library \<Rightarrow> string \<Rightarrow> dict \<Rightarrow> 'fig \<Rightarrow> error + 'fig" where
  "fig_call lib f kwargs fig =
     (case fig_update lib f kwargs fig of None \<Rightarrow> Inl (ValueError LibraryError) | Some fig' \<Rightarrow> Inr fig')"

definition then_fig :: "error + 'fig \<Rightarrow> ('fig \<Rightarrow> error + 'fig) \<Rightarrow> error + 'fig" where
  "then_fig r f = (case r of Inl e \<Rightarrow> Inl e | Inr fig \<Rightarrow> f fig)"

definition apply_customizations :: "'fig library \<Rightarrow> 'fig \<Rightarrow> json \<Rightarrow> error + 'fig" where
  "apply_customizations lib fig customization =
     (case customization of
        JObj c \<Rightarrow>
          then_fig
            (then_fig
               (then_fig
                  (if truthy (dict_get c ''color_scheme'') then
                     (let cs = dict_get c ''color_scheme'';
                          plotly_colorscale =
                            (case cs of
                               JStr s \<Rightarrow> (case map_of colorscale_map s of None \<Rightarrow> cs | Some v \<Rightarrow> v)
                             | _ \<Rightarrow> cs)
                      in if \<not> hashable cs then Inl (ValueError TypeError)
                         else if truthy plotly_colorscale
                         then fig_call lib ''update_traces''
                                [(''marker'', JObj [(''colorscale'', plotly_colorscale)])] fig
                         else Inr fig)
                   else Inr fig)
                  (\<lambda>fig. if \<not> truthy (dict_get_default c ''show_legend'' (JBool True))
                          then fig_call lib ''update_layout'' [(''showlegend'', JBool False)] fig
                          else Inr fig))
               (\<lambda>fig. if truthy (dict_get c ''data_labels'')
                       then fig_call lib ''update_traces''
                              [(''textposition'', JStr ''auto''), (''texttemplate'', JStr ''%{y}'')] fig
                       else Inr fig))
            (\<lambda>fig. fig_call lib ''update_layout''
                      [(''hovermode'', JStr ''x unified''), (''template'', JStr ''plotly_white''),
                       (''height'', JInt 500)] fig)
      | _ \<Rightarrow> Inl (ValueError AttributeError))"

subsection \<open>\<^verbatim>\<open>generate_chart\<close>\<close>

text \<open>
  The loop over \<^verbatim>\<open>chart_spec['filters']\<close> (lines 106 to 115): a clause without a known
  column is skipped, an \<^verbatim>\<open>==\<close> clause keeps the rows equal to the value, any other
  operator changes nothing. Iterating a string or a dictionary yields strings, which have
  no \<^verbatim>\<open>get\<close>; a number cannot be iterated.
\<close>

fun apply_spec_filters :: "'fig library \<Rightarrow> json list \<Rightarrow> table \<Rightarrow> error + table" where
  "apply_spec_filters lib [] filtered_df = Inr filtered_df"
| "apply_spec_filters lib (filter_item # rest) filtered_df =
     (case filter_item of
        JObj f \<Rightarrow>
          (let column = dict_get f ''column''; operator = dict_get f ''operator'';
               val = dict_get f ''value''
           in if truthy column \<and> \<not> hashable column then Inl (ValueError TypeError)
              else if \<not> truthy column \<or> \<not> json_in column (df_columns filtered_df)
              then apply_spec_filters lib rest filtered_df
              else if operator = JStr ''=='' then
                (case df_column filtered_df (json_label column) of
                   None \<Rightarrow> Inl (ValueError LibraryError)
                 | Some c \<Rightarrow>
                     (case series_cmp lib ''=='' c val of
                        None \<Rightarrow> Inl (ValueError LibraryError)
                      | Some keep \<Rightarrow> apply_spec_filters lib rest (keep_rows keep filtered_df)))
              else apply_spec_filters lib rest filtered_df)
      | _ \<Rightarrow> Inl (ValueError AttributeError))"

text \<open>Lines 100 to 118: the table after the filters.\<close>

definition filtered_table :: "'fig library \<Rightarrow> table \<Rightarrow> dict \<Rightarrow> error + table" where
  "filtered_table lib df chart_spec =
     (if df_empty df then Inl (ValueError EmptyDataframe)
      else
        (case (if truthy (dict_get chart_spec ''filters'') then
                 (case dict_get chart_spec ''filters'' of
                    JArr items \<Rightarrow> apply_spec_filters lib items df
                  | JStr s \<Rightarrow> Inl (ValueError AttributeError)
                  | JObj d \<Rightarrow> Inl (ValueError AttributeError)
                  | _ \<Rightarrow> Inl (ValueError TypeError))
               else Inr df) of
           Inl e \<Rightarrow> Inl e
         | Inr filtered_df \<Rightarrow>
             if df_empty filtered_df then Inl (ValueError NoDataMatches) else Inr filtered_df))"

text \<open>Lines 120 to 130: the aggregation, whose exceptions are caught and dropped.\<close>

definition aggregated_table :: "'fig library \<Rightarrow> table \<Rightarrow> dict \<Rightarrow> table" where
  "aggregated_table lib filtered_df chart_spec =
     (let agg = dict_get_default chart_spec ''aggregation'' (JStr ''none'');
          x_axis = dict_get chart_spec ''x_axis'';
          y_axis = dict_get chart_spec ''y_axis'';
          color_by = dict_get chart_spec ''color_by''
      in if truthy agg \<and> agg \<noteq> JStr ''none'' \<and> truthy y_axis \<and> truthy x_axis then
           (case apply_aggregation lib filtered_df agg x_axis y_axis color_by of
              Inl e \<Rightarrow> filtered_df
            | Inr agg_df \<Rightarrow> agg_df)
         else filtered_df)"

text \<open>Lines 132 to 137: the table handed to the chart builder.\<close>

definition chart_table :: "'fig library \<Rightarrow> table \<Rightarrow> dict \<Rightarrow> error + table" where
  "chart_table lib df chart_spec =
     (case filtered_table lib df chart_spec of
        Inl e \<Rightarrow> Inl e
      | Inr filtered_df \<Rightarrow>
          (let filtered_df = aggregated_table lib filtered_df chart_spec;
               cols_needed = get_columns_for_chart chart_spec
           in if cols_needed \<noteq> [] then prepare_data filtered_df cols_needed False
              else Inr filtered_df))"

text \<open>
  The function: the result dictionary holds the specification and the figure, of which
  plotly then prints the HTML and JSON documents. Every exception leaves as a plain
  \<^verbatim>\<open>Exception\<close>.
\<close>

definition generate_chart :: "'fig library \<Rightarrow> table \<Rightarrow> dict \<Rightarrow> error + dict \<times> 'fig" where
  "generate_chart lib df chart_spec =
     (case
        (case dict_get_default chart_spec ''chart_type'' (JStr []) of
           JStr s \<Rightarrow>
             (let chart_type = str_lower s in
              case map_of chart_functions chart_type of
                None \<Rightarrow> Inl (ValueError UnsupportedChartType)
              | Some chart_function \<Rightarrow>
                  (case chart_table lib df chart_spec of
                     Inl e \<Rightarrow> Inl e
                   | Inr filtered_df \<Rightarrow>
                       (case chart_function lib filtered_df chart_spec of
                          Inl e \<Rightarrow> Inl e
                        | Inr fig \<Rightarrow>
                            (case apply_customizations lib fig
                                    (dict_get_default chart_spec ''customization'' (JObj [])) of
                               Inl e \<Rightarrow> Inl e
                             | Inr fig \<Rightarrow> Inr (chart_spec, fig)))))
         | _ \<Rightarrow> Inl (ValueError AttributeError)) of
        Inl e \<Rightarrow> Inl (Exception (ErrorGenerating (error_message e)))
      | Inr r \<Rightarrow> Inr r)"

definition three_numeric :: table where
  "three_numeric =
     [\<lparr>col_name = ''a'', col_dtype = Int64, col_cells = [IntV 1, IntV 2]\<rparr>,
      \<lparr>col_name = ''b'', col_dtype = Int64, col_cells = [IntV 3, IntV 5]\<rparr>,
      \<lparr>col_name = ''c'', col_dtype = Float64, col_cells = [FloatV 2, FloatV 7]\<rparr>]"

definition heatmap_spec :: dict where
  "heatmap_spec = [(''chart_type'', JStr ''heatmap''), (''x_axis'', JStr ''a'')]"


definition sales_table :: table where
  "sales_table =
     [\<lparr>col_name = ''city'', col_dtype = Object, col_cells = [StrV ''a'', StrV ''a'', StrV ''b'']\<rparr>,
      \<lparr>col_name = ''sales'', col_dtype = Int64, col_cells = [IntV 1, IntV 2, IntV 3]\<rparr>]"

definition sales_spec :: "string \<Rightarrow> dict" where
  "sales_spec agg =
     [(''chart_type'', JStr ''bar''), (''x_axis'', JStr ''city''), (''y_axis'', JStr ''sales''),
      (''aggregation'', JStr agg)]"

text \<open>A library that counts the rows of each value of a single key, and groups nothing else.\<close>

definition count_library :: "(string \<times> table \<times> dict) library" where
  "count_library =
     example_library
       \<lparr>groupby_size :=
          (\<lambda>keys. case keys of
                     [k] \<Rightarrow>
                       Some ([k\<lparr>col_cells := remdups (col_cells k)\<rparr>],
                             map (\<lambda>v. IntV (int (count_list (col_cells k) v))) (remdups (col_cells k)))
                   | _ \<Rightarrow> None)\<rparr>"

section \<open>Properties\<close>

subsection \<open>JSON extraction\<close>

lemma find_map_comp: "find P (map f xs) = map_option f (find (P \<circ> f) xs)"
  by (induction xs) auto

lemma prefixes_hd_tl: "prefixes xs = [] # tl (prefixes xs)"
  by (cases xs) auto

lemma first_settled_Nil [simp]: "first_settled s [] = None"
  by (simp add: first_settled_def)

lemma first_settled_Cons:
  "first_settled s (x # xs) =
     (if settled (bracket_step s x) then Some [x]
      else map_option ((#) x) (first_settled (bracket_step s x) xs))"
proof -
  have "first_settled s (x # xs) =
          map_option ((#) x) (find (\<lambda>p. settled (foldl bracket_step (bracket_step s x) p)) (prefixes xs))"
    by (simp add: first_settled_def find_map_comp comp_def)
  also have "prefixes xs = [] # tl (prefixes xs)"
    by (rule prefixes_hd_tl)
  finally show ?thesis
    by (simp add: first_settled_def)
qed

lemma first_settled_prefix: "first_settled s xs = Some p \<Longrightarrow> prefix p xs \<and> p \<noteq> []"
proof (induction xs arbitrary: s p)
  case Nil
  then show ?case by simp
next
  case (Cons x xs)
  then show ?case
    by (auto simp: first_settled_Cons split: if_splits)
qed

lemma scan_loop_first_settled:
  assumes "i \<le> length text" "stack \<noteq> []" "set stack \<subseteq> {CHR ''{'', CHR ''[''}"
  shows "scan_loop text stack i =
     (case first_settled (Some (rev stack)) (drop i text) of
        None \<Rightarrow> Inr (- 1)
      | Some p \<Rightarrow>
          if foldl bracket_step (Some (rev stack)) p = None then Inl (ValueError MismatchedBrackets)
          else Inr (int (i + length p)))"
  using assms
proof (induction "text" stack i rule: scan_loop.induct)
  case (1 tx stack i)
  show ?case
  proof (cases "i < length tx")
    case False
    with "1.prems" show ?thesis
      by (subst scan_loop.simps) simp
  next
    case True
    then have d: "drop i tx = tx ! i # drop (Suc i) tx"
      by (simp add: Cons_nth_drop_Suc)
    have st: "rev stack = last stack # rev (butlast stack)"
      using "1.prems"(2) by (induction stack rule: rev_induct) auto
    have bopen: "last stack = CHR ''{'' \<or> last stack = CHR ''[''"
      using "1.prems"(2,3) last_in_set by fastforce
    have sub: "set (butlast stack) \<subseteq> {CHR ''{'', CHR ''[''}"
      using "1.prems"(3) by (meson in_set_butlastD subset_iff)
    let ?ch = "tx ! i"
    consider (op) "?ch = CHR ''{'' \<or> ?ch = CHR ''[''"
      | (cl) "\<not> (?ch = CHR ''{'' \<or> ?ch = CHR ''['')" "?ch = CHR ''}'' \<or> ?ch = CHR '']''"
      | (other) "\<not> (?ch = CHR ''{'' \<or> ?ch = CHR ''['')" "\<not> (?ch = CHR ''}'' \<or> ?ch = CHR '']'')"
      by blast
    then show ?thesis
    proof cases
      case op
      have ih: "scan_loop tx (stack @ [?ch]) (i + 1) =
         (case first_settled (Some (rev (stack @ [?ch]))) (drop (i + 1) tx) of
            None \<Rightarrow> Inr (- 1)
          | Some p \<Rightarrow>
              if foldl bracket_step (Some (rev (stack @ [?ch]))) p = None
              then Inl (ValueError MismatchedBrackets)
              else Inr (int (i + 1 + length p)))"
        using "1.IH"(1) [OF True refl op] True "1.prems"(3) op by auto
      show ?thesis
        using op True ih
        by (subst scan_loop.simps)
           (simp add: d first_settled_Cons is_open_def settled_def split: option.splits)
    next
      case cl
      let ?mis = "(last stack = CHR ''{'' \<and> ?ch \<noteq> CHR ''}'') \<or> (last stack = CHR ''['' \<and> ?ch \<noteq> CHR '']'')"
      show ?thesis
      proof (cases ?mis)
        case True
        then show ?thesis
          using cl \<open>i < length tx\<close> "1.prems"(2) bopen
          by (subst scan_loop.simps)
             (auto simp: d first_settled_Cons is_open_def is_close_def settled_def st)
      next
        case nomis: False
        show ?thesis
        proof (cases "butlast stack = []")
          case True
          then show ?thesis
            using cl nomis \<open>i < length tx\<close> "1.prems"(2) bopen
            by (subst scan_loop.simps)
               (auto simp: d first_settled_Cons is_open_def is_close_def settled_def st)
        next
          case False
          have ih: "scan_loop tx (butlast stack) (i + 1) =
             (case first_settled (Some (rev (butlast stack))) (drop (i + 1) tx) of
                None \<Rightarrow> Inr (- 1)
              | Some p \<Rightarrow>
                  if foldl bracket_step (Some (rev (butlast stack))) p = None
                  then Inl (ValueError MismatchedBrackets)
                  else Inr (int (i + 1 + length p)))"
            using "1.IH"(2) [OF \<open>i < length tx\<close> refl cl "1.prems"(2) refl refl nomis False]
              \<open>i < length tx\<close> False sub by auto
          show ?thesis
            using cl nomis \<open>i < length tx\<close> "1.prems"(2) bopen False ih
            by (subst scan_loop.simps)
               (auto simp: d first_settled_Cons is_open_def is_close_def settled_def st
                  split: option.splits)
        qed
      qed
    next
      case other
      have ih: "scan_loop tx stack (i + 1) =
         (case first_settled (Some (rev stack)) (drop (i + 1) tx) of
            None \<Rightarrow> Inr (- 1)
          | Some p \<Rightarrow>
              if foldl bracket_step (Some (rev stack)) p = None
              then Inl (ValueError MismatchedBrackets)
              else Inr (int (i + 1 + length p)))"
        using "1.IH"(3) [OF True refl other] True "1.prems" by auto
      show ?thesis
        using other True ih "1.prems"(2)
        by (subst scan_loop.simps)
           (simp add: d first_settled_Cons is_open_def is_close_def settled_def st
              split: option.splits)
    qed
  qed
qed

lemma str_find_conv:
  "str_find c xs = (if c \<in> set xs then int (length (takeWhile (\<lambda>x. x \<noteq> c) xs)) else - 1)"
  by (induction xs) (auto simp: Let_def)

lemma first_open_index:
  assumes "\<exists>x\<in>set xs. is_open x"
  shows "min_list (filter (\<lambda>i. i \<noteq> - 1) [str_find (CHR ''{'') xs, str_find (CHR ''['') xs]) =
           int (length (takeWhile (\<lambda>c. \<not> is_open c) xs))"
  using assms
proof (induction xs)
  case Nil
  then show ?case by simp
next
  case (Cons x xs)
  show ?case
  proof (cases "is_open x")
    case True
    then show ?thesis
      by (auto simp: is_open_def str_find_conv)
  next
    case False
    with Cons.prems have ex: "\<exists>x\<in>set xs. is_open x" by simp
    from Cons.IH [OF ex] False ex show ?thesis
      by (auto simp: is_open_def str_find_conv split: if_splits)
  qed
qed

lemma no_open_candidates:
  "(filter (\<lambda>i. i \<noteq> - 1) [str_find (CHR ''{'') xs, str_find (CHR ''['') xs] = []) =
     (\<forall>x\<in>set xs. \<not> is_open x)"
  by (auto simp: str_find_conv is_open_def)

lemma json_payload_first_settled:
  "json_payload tx =
     (case first_settled (Some []) (dropWhile (\<lambda>c. \<not> is_open c) tx) of
        None \<Rightarrow> None
      | Some p \<Rightarrow> if foldl bracket_step (Some []) p = Some [] then Some p else None)"
  by (simp add: json_payload_def first_settled_def stack_after_def split: option.splits)

lemma extract_json_from_text_refines:
  "(case json_payload tx of
      None \<Rightarrow> malformed_model_output (extract_json_from_text loads tx)
    | Some p \<Rightarrow> extract_json_from_text loads tx = parsed loads p)"
proof (cases "\<forall>x\<in>set tx. \<not> is_open x")
  case True
  then have dw: "dropWhile (\<lambda>c. \<not> is_open c) tx = []"
    by simp
  have "json_payload tx = None"
    by (simp only: json_payload_first_settled dw first_settled_Nil option.case)
  moreover have "malformed_model_output (extract_json_from_text loads tx)"
    using True no_open_candidates [of tx]
    by (simp add: extract_json_from_text_def Let_def)
  ultimately show ?thesis by simp
next
  case False
  then have ex: "\<exists>x\<in>set tx. is_open x" by simp
  define n where "n = length (takeWhile (\<lambda>c. \<not> is_open c) tx)"
  define body where "body = dropWhile (\<lambda>c. \<not> is_open c) tx"
  have ne: "tx \<noteq> []" using ex by auto
  have cand: "filter (\<lambda>i. i \<noteq> - 1) [str_find (CHR ''{'') tx, str_find (CHR ''['') tx] \<noteq> []"
    using no_open_candidates [of tx] ex by simp
  have start: "nat (min_list (filter (\<lambda>i. i \<noteq> - 1) [str_find (CHR ''{'') tx, str_find (CHR ''['') tx])) = n"
    using first_open_index [OF ex] by (simp add: n_def)
  have body_drop: "body = drop n tx"
    by (simp add: body_def n_def dropWhile_eq_drop)
  have body_ne: "body \<noteq> []"
    using ex by (simp add: body_def dropWhile_eq_Nil_conv)
  then obtain b rest where body: "body = b # rest"
    by (cases body) auto
  have bopen: "is_open b"
    using hd_dropWhile [of "\<lambda>c. \<not> is_open c" tx] body body_ne ex by (simp add: body_def)
  have nlt: "n < length tx"
    using body_ne body_drop by simp
  have b_nth: "tx ! n = b" and rest_drop: "drop (Suc n) tx = rest"
    using body body_drop nlt by (simp_all add: Cons_nth_drop_Suc [symmetric])
  have first: "scan_loop tx [] n = scan_loop tx [b] (n + 1)"
    using nlt bopen b_nth by (subst scan_loop.simps) (simp add: is_open_def)
  have loop: "scan_loop tx [b] (n + 1) =
     (case first_settled (Some [b]) rest of
        None \<Rightarrow> Inr (- 1)
      | Some p \<Rightarrow>
          if foldl bracket_step (Some [b]) p = None then Inl (ValueError MismatchedBrackets)
          else Inr (int (n + 1 + length p)))"
    using scan_loop_first_settled [of "n + 1" tx "[b]"] nlt bopen rest_drop
    by (simp add: is_open_def split: option.splits)
  have fs: "first_settled (Some []) body = map_option ((#) b) (first_settled (Some [b]) rest)"
    using bopen by (simp add: body first_settled_Cons settled_def)
  show ?thesis
  proof (cases "first_settled (Some [b]) rest")
    case None
    then have "json_payload tx = None"
      using fs by (simp add: json_payload_first_settled body_def)
    moreover have "malformed_model_output (extract_json_from_text loads tx)"
      using ne cand start first loop None
      by (simp add: extract_json_from_text_def Let_def)
    ultimately show ?thesis by simp
  next
    case (Some p)
    have pre: "prefix p rest"
      using first_settled_prefix [OF Some] by simp
    have fsp: "find (\<lambda>p. settled (foldl bracket_step (Some [b]) p)) (tl (prefixes rest)) = Some p"
      using Some by (simp add: first_settled_def)
    have settled_p: "settled (foldl bracket_step (Some [b]) p)"
      using fsp by (auto simp: find_Some_iff)
    have take_p: "take (Suc (length p)) (drop n tx) = b # p"
      using pre body body_drop by (auto simp: prefix_def)
    have fold_b: "foldl bracket_step (Some []) (b # p) = foldl bracket_step (Some [b]) p"
      using bopen by simp
    show ?thesis
    proof (cases "foldl bracket_step (Some [b]) p")
      case None
      then have "json_payload tx = None"
        using fs Some fold_b by (simp add: json_payload_first_settled body_def)
      moreover have "malformed_model_output (extract_json_from_text loads tx)"
        using ne cand start first loop Some None
        by (simp add: extract_json_from_text_def Let_def)
      ultimately show ?thesis by simp
    next
      case (Some st)
      with settled_p have st: "st = []" by (simp add: settled_def)
      have "json_payload tx = Some (b # p)"
        using fs \<open>first_settled (Some [b]) rest = Some p\<close> fold_b Some st
        by (simp add: json_payload_first_settled body_def)
      moreover have "extract_json_from_text loads tx = parsed loads (b # p)"
      proof -
        have idx: "nat (1 + (int n + int (length p))) - n = Suc (length p)"
          by simp
        show ?thesis
          using ne cand start first loop \<open>first_settled (Some [b]) rest = Some p\<close> Some take_p
          by (simp add: extract_json_from_text_def Let_def idx)
      qed
      ultimately show ?thesis by simp
    qed
  qed
qed

text \<open>
  C3. For every text and every parser: when the specification's payload exists, the
  function returns the parse of exactly that substring; when it does not (no opening
  bracket, a closing bracket that mismatches the innermost open one, or a stack that
  never empties) the function fails with one of its malformed-output errors. On the
  fenced example the payload is the object text, and the unbalanced example fails with
  the mismatched-brackets error.
\<close>

theorem extract_json_from_text_payload:
  "(case json_payload tx of
      None \<Rightarrow> malformed_model_output (extract_json_from_text loads tx)
    | Some p \<Rightarrow> extract_json_from_text loads tx = parsed loads p)
   \<and> ((\<forall>c\<in>set tx. \<not> is_open c) \<longrightarrow> malformed_model_output (extract_json_from_text loads tx))
   \<and> json_payload example_text = Some example_payload
   \<and> extract_json_from_text loads example_text = parsed loads example_payload
   \<and> json_payload unbalanced_text = None
   \<and> extract_json_from_text loads unbalanced_text = Inl (ValueError MismatchedBrackets)"
proof -
  have no_open: "malformed_model_output (extract_json_from_text loads tx)"
    if "\<forall>c\<in>set tx. \<not> is_open c"
    using that no_open_candidates [of tx] by (simp add: extract_json_from_text_def Let_def)
  have p1: "json_payload example_text = Some example_payload"
    by (simp add: json_payload_def example_text_def example_payload_def is_open_def is_close_def
        stack_after_def settled_def)
  have e1: "extract_json_from_text loads example_text = parsed loads example_payload"
    by (simp add: extract_json_from_text_def example_text_def example_payload_def Let_def
        scan_loop.simps)
  have p2: "json_payload unbalanced_text = None"
    by (simp add: json_payload_def unbalanced_text_def is_open_def is_close_def
        stack_after_def settled_def)
  have e2: "extract_json_from_text loads unbalanced_text = Inl (ValueError MismatchedBrackets)"
    by (simp add: extract_json_from_text_def unbalanced_text_def Let_def scan_loop.simps)
  show ?thesis
    using extract_json_from_text_refines [where tx = tx and loads = loads] no_open p1 e1 p2 e2 by blast
qed

theorem extract_json_from_text_payload_witness:
  "extract_json_from_text
     (\<lambda>s. if s = example_payload then Some (JObj [(''a'', JInt 1)]) else None) example_text
   = Inr (JObj [(''a'', JInt 1)])"
  using extract_json_from_text_payload
    [where tx = example_text
       and loads = "\<lambda>s. if s = example_payload then Some (JObj [(''a'', JInt 1)]) else None"]
  by simp

lemma map_of_dict_set: "map_of (dict_set k v d) k' = (if k' = k then Some v else map_of d k')"
  by (induction d) auto

lemma dict_get_dict_set: "dict_get (dict_set k v d) k' = (if k' = k then v else dict_get d k')"
  by (simp add: dict_get_def dict_get_default_def map_of_dict_set)

lemma dict_get_default_dict_set:
  "dict_get_default (dict_set k v d) k' x = (if k' = k then v else dict_get_default d k' x)"
  by (simp add: dict_get_default_def map_of_dict_set)

lemma dict_set_same: "map_of d k = Some v \<Longrightarrow> dict_set k v d = d"
  by (induction d) (auto split: if_splits)

lemma dict_get_truthy_map_of: "truthy (dict_get d k) \<Longrightarrow> map_of d k = Some (dict_get d k)"
  by (auto simp: dict_get_def dict_get_default_def split: option.splits)

lemma dict_get_eq_map_of: "dict_get d k = v \<Longrightarrow> v \<noteq> JNull \<Longrightarrow> map_of d k = Some v"
  by (auto simp: dict_get_def dict_get_default_def split: option.splits)

lemma nat_digits_nonempty: "nat_digits n \<noteq> []"
  by (subst nat_digits.simps) (simp del: nat_digits.simps)

lemma py_str_nonempty: "truthy v \<Longrightarrow> py_str v \<noteq> []"
  by (cases v) (auto simp: py_str_def int_repr_def nat_digits_nonempty)

lemma str_lower_empty: "(str_lower s = []) = (s = [])"
  by (simp add: str_lower_def)

lemmas char_eval = lower_char_def upper_char_def title_char_def upper_letters_def
  lower_letters_def is_space_def

lemma lower_char_idem: "lower_char (lower_char c) = lower_char c"
  by (simp add: lower_char_def upper_letters_def lower_letters_def)

lemma is_space_lower_char: "is_space (lower_char c) = is_space c"
  by (simp add: lower_char_def upper_letters_def lower_letters_def is_space_def)

lemma str_lower_idem: "str_lower (str_lower s) = str_lower s"
  by (simp add: str_lower_def lower_char_idem)

lemma dropWhile_space_lower:
  "dropWhile is_space (map lower_char s) = map lower_char (dropWhile is_space s)"
  by (induction s) (auto simp: is_space_lower_char)

lemma str_strip_lower: "str_strip (str_lower s) = str_lower (str_strip s)"
  by (simp add: str_strip_def str_lower_def dropWhile_space_lower rev_map)

lemma dropWhile_idem: "dropWhile P (dropWhile P xs) = dropWhile P xs"
  by (induction xs) auto

lemma dropWhile_hd_id: "xs \<noteq> [] \<Longrightarrow> \<not> P (hd xs) \<Longrightarrow> dropWhile P xs = xs"
  by (cases xs) auto

lemma last_dropWhile: "dropWhile P xs \<noteq> [] \<Longrightarrow> last (dropWhile P xs) = last xs"
  by (induction xs) (auto split: if_splits)

lemma dropWhile_rev_dropWhile:
  "dropWhile P (rev (dropWhile P (rev (dropWhile P xs)))) = rev (dropWhile P (rev (dropWhile P xs)))"
proof (cases "dropWhile P (rev (dropWhile P xs)) = []")
  case True
  show ?thesis by (simp only: True rev.simps dropWhile.simps)
next
  case False
  let ?d = "dropWhile P xs"
  let ?e = "dropWhile P (rev ?d)"
  have d_ne: "?d \<noteq> []"
  proof
    assume "?d = []"
    then have "?e = []" by (simp only: rev.simps dropWhile.simps)
    with False show False by contradiction
  qed
  have "hd (rev ?e) = last ?e" using False by (simp add: hd_rev)
  also have "\<dots> = last (rev ?d)" using False by (rule last_dropWhile)
  also have "\<dots> = hd ?d" using d_ne by (simp add: last_rev)
  finally have "hd (rev ?e) = hd ?d" .
  moreover have "\<not> P (hd ?d)" using d_ne by (rule hd_dropWhile)
  ultimately have "\<not> P (hd (rev ?e))" by simp
  moreover have "rev ?e \<noteq> []" using False by simp
  ultimately show ?thesis by (rule dropWhile_hd_id [rotated])
qed

lemma str_strip_idem: "str_strip (str_strip s) = str_strip s"
  by (simp add: str_strip_def dropWhile_rev_dropWhile dropWhile_idem)

lemma op_map_values:
  assumes "map_of op_map c = Some v"
  shows "str_lower (str_strip v) = v \<and> map_of op_map v = Some v"
proof -
  from assms have "(c, v) \<in> set op_map" by (rule map_of_SomeD)
  then have "v \<in> {''=='', ''!='', ''>'', ''<'', ''>='', ''<=''}"
    by (auto simp: op_map_def)
  then show ?thesis
    by (auto simp: op_map_def str_strip_def str_lower_def char_eval)
qed

lemma normalize_operator_idem: "normalize_operator (normalize_operator op) = normalize_operator op"
proof (cases op)
  case (JStr s)
  let ?c = "str_lower (str_strip s)"
  have clean: "str_lower (str_strip ?c) = ?c"
    by (simp add: str_strip_lower str_lower_idem str_strip_idem)
  show ?thesis
  proof (cases "map_of op_map ?c")
    case None
    then show ?thesis
      using clean by (simp add: normalize_operator_def JStr Let_def)
  next
    case (Some v)
    then show ?thesis
      using op_map_values [OF Some] by (simp add: normalize_operator_def JStr Let_def)
  qed
qed (simp_all add: normalize_operator_def)

lemma normalize_filter_shape:
  assumes "normalize_filter all_columns f = Some g"
  obtains c opn v where
    "g = JObj [(''column'', c), (''operator'', opn), (''value'', v)]"
    "truthy c" "json_in c all_columns" "truthy opn" "normalize_operator opn = opn" "v \<noteq> JNull"
proof -
  from assms obtain d where f: "f = JObj d"
    by (cases f) (auto simp: normalize_filter_def)
  let ?col = "filter_column d"
  let ?opn = "normalize_operator (filter_operator d)"
  let ?val = "filter_value d"
  from assms f have ok: "truthy ?col" "truthy ?opn" "?val \<noteq> JNull"
    by (auto simp: normalize_filter_def Let_def split: if_splits)
  show thesis
  proof (cases "json_in ?col all_columns")
    case True
    with assms f ok have "g = JObj [(''column'', ?col), (''operator'', ?opn), (''value'', ?val)]"
      by (simp add: normalize_filter_def Let_def)
    then show thesis
      using ok True normalize_operator_idem by (intro that [of ?col ?opn ?val]) auto
  next
    case False
    let ?ms = "filter (\<lambda>c. str_lower c = str_lower (py_str ?col)) all_columns"
    from assms f ok False obtain m ms where ms: "?ms = m # ms"
      and g: "g = JObj [(''column'', JStr m), (''operator'', ?opn), (''value'', ?val)]"
      by (auto simp: normalize_filter_def Let_def split: list.splits)
    have "m \<in> set ?ms" by (simp add: ms)
    then have m: "m \<in> set all_columns" "str_lower m = str_lower (py_str ?col)" by auto
    have "m \<noteq> []"
      using m(2) py_str_nonempty [OF ok(1)] str_lower_empty by metis
    then have "truthy (JStr m)" by simp
    moreover have "json_in (JStr m) all_columns" using m(1) by (simp add: json_in_def)
    ultimately show thesis
      using g ok normalize_operator_idem by (intro that [of "JStr m" ?opn ?val]) auto
  qed
qed

lemma normalize_filter_idem:
  assumes "normalize_filter all_columns f = Some g"
  shows "normalize_filter all_columns g = Some g"
proof -
  from assms obtain c opn v where g: "g = JObj [(''column'', c), (''operator'', opn), (''value'', v)]"
    and c: "truthy c" "json_in c all_columns" and o: "truthy opn" "normalize_operator opn = opn"
    and v: "v \<noteq> JNull"
    by (rule normalize_filter_shape)
  have "filter_column [(''column'', c), (''operator'', opn), (''value'', v)] = c"
    using c(1) by (simp add: filter_column_def py_or_def dict_get_def dict_get_default_def)
  moreover have "filter_operator [(''column'', c), (''operator'', opn), (''value'', v)] = opn"
    using o(1) by (simp add: filter_operator_def py_or_def dict_get_def dict_get_default_def)
  moreover have "filter_value [(''column'', c), (''operator'', opn), (''value'', v)] = v"
    by (simp add: filter_value_def dict_has_def dict_get_def dict_get_default_def)
  ultimately show ?thesis
    using c o v by (simp add: normalize_filter_def g Let_def)
qed

lemma normalize_filters_idem:
  "normalize_filters all_columns (normalize_filters all_columns fs) = normalize_filters all_columns fs"
proof (induction fs)
  case Nil
  then show ?case by (simp add: normalize_filters_def)
next
  case (Cons f fs)
  then show ?case
    by (cases "normalize_filter all_columns f")
       (simp_all add: normalize_filters_def normalize_filter_idem)
qed

lemma dict_get_set_filters:
  "k \<noteq> ''filters'' \<Longrightarrow> dict_get (set_filters d cols) k = dict_get d k"
  by (simp add: set_filters_def dict_get_dict_set split: json.splits)

lemma dict_get_clear_missing:
  "k' \<noteq> k \<Longrightarrow> dict_get (clear_missing k cols d) k' = dict_get d k'"
  by (simp add: clear_missing_def dict_get_dict_set)

lemma dict_get_default_aggregation:
  "k \<noteq> ''aggregation'' \<Longrightarrow> dict_get (default_aggregation md d) k = dict_get d k"
  by (simp add: default_aggregation_def dict_get_dict_set)

lemma dict_get_default_title:
  "default_title d = Inr d' \<Longrightarrow> k \<noteq> ''title'' \<Longrightarrow> dict_get d' k = dict_get d k"
  by (auto simp: default_title_def dict_get_dict_set split: if_splits json.splits)

lemma dict_get_default_labels:
  "k \<noteq> ''x_label'' \<Longrightarrow> k \<noteq> ''y_label'' \<Longrightarrow> dict_get (default_labels d) k = dict_get d k"
  by (simp add: default_labels_def dict_get_dict_set Let_def)

lemma set_filters_stable:
  assumes "\<And>fs. dict_get s ''filters'' = JArr fs \<Longrightarrow> normalize_filters cols fs = fs"
  shows "set_filters s cols = s"
proof (cases "dict_get s ''filters''")
  case (JArr fs)
  then have "map_of s ''filters'' = Some (JArr fs)"
    by (simp add: dict_get_eq_map_of)
  then show ?thesis
    using assms [OF JArr] JArr by (simp add: set_filters_def dict_set_same)
qed (simp_all add: set_filters_def)

lemma set_filters_normal:
  "dict_get (set_filters d cols) ''filters'' = JArr fs \<Longrightarrow> normalize_filters cols fs = fs"
  by (cases "dict_get d ''filters''")
     (auto simp: set_filters_def dict_get_dict_set normalize_filters_idem)

lemma clear_missing_cleared:
  "\<not> (truthy (dict_get (clear_missing k cols d) k) \<and> \<not> json_in (dict_get (clear_missing k cols d) k) cols)"
  by (simp add: clear_missing_def dict_get_dict_set)

lemma clear_missing_stable:
  "\<not> (truthy (dict_get s k) \<and> \<not> json_in (dict_get s k) cols) \<Longrightarrow> clear_missing k cols s = s"
  by (auto simp: clear_missing_def)

lemma default_aggregation_truthy: "truthy (dict_get (default_aggregation md d) ''aggregation'')"
  by (simp add: default_aggregation_def dict_get_dict_set)

lemma default_aggregation_stable:
  "truthy (dict_get s ''aggregation'') \<Longrightarrow> default_aggregation md s = s"
  by (simp add: default_aggregation_def)

lemma default_title_truthy: "default_title d = Inr d' \<Longrightarrow> truthy (dict_get d' ''title'')"
  by (auto simp: default_title_def dict_get_dict_set split: if_splits json.splits)

lemma default_title_stable: "truthy (dict_get s ''title'') \<Longrightarrow> default_title s = Inr s"
  by (simp add: default_title_def)

lemma dict_set_get_same: "dict_set k v (dict_set k v d) = dict_set k v d"
  by (rule dict_set_same) (simp add: map_of_dict_set)

lemma default_labels_idem: "default_labels (default_labels d) = default_labels d"
proof -
  define X where "X = dict_get d ''x_axis''"
  define d1 where
    "d1 = (if \<not> truthy (dict_get d ''x_label'') then dict_set ''x_label'' X d else d)"
  define Y where "Y = dict_get_default d1 ''y_axis'' (JStr ''Value'')"
  define d2 where
    "d2 = (if \<not> truthy (dict_get d1 ''y_label'') then dict_set ''y_label'' Y d1 else d1)"
  have r: "default_labels d = d2"
    by (simp add: default_labels_def Let_def d2_def d1_def X_def Y_def)
  have xa1: "dict_get d1 ''x_axis'' = X"
    by (simp add: d1_def X_def dict_get_dict_set)
  have xa2: "dict_get d2 ''x_axis'' = X"
    by (simp add: d2_def xa1 dict_get_dict_set)
  have ya2: "dict_get_default d2 ''y_axis'' (JStr ''Value'') = Y"
    by (simp add: d2_def Y_def dict_get_default_dict_set)
  have xl1: "truthy (dict_get d1 ''x_label'') \<or> map_of d1 ''x_label'' = Some X"
    by (simp add: d1_def dict_get_dict_set map_of_dict_set)
  have xl2: "truthy (dict_get d2 ''x_label'') \<or> map_of d2 ''x_label'' = Some X"
    using xl1 by (simp add: d2_def dict_get_dict_set map_of_dict_set)
  have yl2: "truthy (dict_get d2 ''y_label'') \<or> map_of d2 ''y_label'' = Some Y"
    by (simp add: d2_def dict_get_dict_set map_of_dict_set)
  have sx: "(if \<not> truthy (dict_get d2 ''x_label'')
             then dict_set ''x_label'' (dict_get d2 ''x_axis'') d2 else d2) = d2"
    using xl2 dict_set_same [of d2 "''x_label''" X] by (auto simp: xa2)
  have sy: "(if \<not> truthy (dict_get d2 ''y_label'')
             then dict_set ''y_label'' (dict_get_default d2 ''y_axis'' (JStr ''Value'')) d2 else d2) = d2"
    using yl2 dict_set_same [of d2 "''y_label''" Y] by (auto simp: ya2)
  have "default_labels d2 = d2"
    unfolding default_labels_def Let_def sx by (rule sy)
  then show ?thesis by (simp only: r)
qed

lemma validate_and_enhance_spec_idem:
  assumes "validate_and_enhance_spec spec md = Inr s"
  shows "validate_and_enhance_spec s md = Inr s"
proof -
  let ?cols = "columns md"
  define s1 where "s1 = set_filters spec ?cols"
  define s2 where "s2 = clear_missing ''y_axis'' ?cols s1"
  define s3 where "s3 = clear_missing ''color_by'' ?cols s2"
  define s4 where "s4 = default_aggregation md s3"
  from assms have x_ok: "\<not> (truthy (dict_get s1 ''x_axis'') \<and> \<not> json_in (dict_get s1 ''x_axis'') ?cols)"
    by (auto simp: validate_and_enhance_spec_def Let_def s1_def split: if_splits)
  from assms x_ok obtain s5 where s5: "default_title s4 = Inr s5" and s: "s = default_labels s5"
    by (auto simp: validate_and_enhance_spec_def Let_def s1_def s2_def s3_def s4_def
        split: if_splits sum.splits)
  have get_s5: "dict_get s k = dict_get s5 k" if "k \<noteq> ''x_label''" "k \<noteq> ''y_label''" for k
    using that by (simp add: s dict_get_default_labels)
  have get_s4: "dict_get s k = dict_get s4 k" if "k \<noteq> ''x_label''" "k \<noteq> ''y_label''" "k \<noteq> ''title''" for k
    using that get_s5 dict_get_default_title [OF s5] by simp
  have get_s3: "dict_get s k = dict_get s3 k"
    if "k \<noteq> ''x_label''" "k \<noteq> ''y_label''" "k \<noteq> ''title''" "k \<noteq> ''aggregation''" for k
    using that get_s4 by (simp add: s4_def dict_get_default_aggregation)
  have f: "dict_get s ''filters'' = dict_get s1 ''filters''"
    by (simp add: get_s3 s3_def s2_def dict_get_clear_missing)
  have x: "dict_get s ''x_axis'' = dict_get s1 ''x_axis''"
    by (simp add: get_s3 s3_def s2_def dict_get_clear_missing)
  have y: "dict_get s ''y_axis'' = dict_get s2 ''y_axis''"
    by (simp add: get_s3 s3_def dict_get_clear_missing)
  have c: "dict_get s ''color_by'' = dict_get s3 ''color_by''"
    by (simp add: get_s3)
  have p1: "set_filters s ?cols = s"
    by (rule set_filters_stable) (simp add: f s1_def set_filters_normal)
  have p2: "\<not> (truthy (dict_get s ''x_axis'') \<and> \<not> json_in (dict_get s ''x_axis'') ?cols)"
    using x_ok by (simp add: x)
  have p3: "clear_missing ''y_axis'' ?cols s = s"
    by (rule clear_missing_stable) (simp only: y s2_def clear_missing_cleared not_False_eq_True)
  have p4: "clear_missing ''color_by'' ?cols s = s"
    by (rule clear_missing_stable) (simp only: c s3_def clear_missing_cleared not_False_eq_True)
  have p5: "default_aggregation md s = s"
    by (rule default_aggregation_stable) (simp add: get_s4 s4_def default_aggregation_truthy)
  have p6: "default_title s = Inr s"
    by (rule default_title_stable) (simp add: get_s5 default_title_truthy [OF s5])
  have p7: "default_labels s = s"
    by (simp add: s default_labels_idem)
  show ?thesis
    using p2 by (simp add: validate_and_enhance_spec_def Let_def p1 p3 p4 p5 p6 p7)
qed

lemma default_title_fails_iff:
  "(\<exists>m. default_title d = Inl m) \<longleftrightarrow>
     \<not> truthy (dict_get d ''title'') \<and> \<not> is_str (dict_get_default d ''chart_type'' (JStr ''Chart''))"
  by (cases "dict_get_default d ''chart_type'' (JStr ''Chart'')") (auto simp: default_title_def)

lemma dict_get_default_via_map_of:
  "map_of d' k = map_of d k \<Longrightarrow> dict_get_default d' k x = dict_get_default d k x"
  by (simp add: dict_get_default_def)

lemma map_of_set_filters: "k \<noteq> ''filters'' \<Longrightarrow> map_of (set_filters d cols) k = map_of d k"
  by (simp add: set_filters_def map_of_dict_set split: json.splits)

lemma map_of_clear_missing: "k' \<noteq> k \<Longrightarrow> map_of (clear_missing k cols d) k' = map_of d k'"
  by (simp add: clear_missing_def map_of_dict_set)

lemma map_of_default_aggregation:
  "k \<noteq> ''aggregation'' \<Longrightarrow> map_of (default_aggregation md d) k = map_of d k"
  by (simp add: default_aggregation_def map_of_dict_set)

lemma map_of_default_title:
  "default_title d = Inr d' \<Longrightarrow> k \<noteq> ''title'' \<Longrightarrow> map_of d' k = map_of d k"
  by (auto simp: default_title_def map_of_dict_set split: if_splits json.splits)

lemma map_of_default_labels:
  "k \<noteq> ''x_label'' \<Longrightarrow> k \<noteq> ''y_label'' \<Longrightarrow> map_of (default_labels d) k = map_of d k"
  by (simp add: default_labels_def map_of_dict_set Let_def)

lemma validate_and_enhance_spec_fails:
  "(\<exists>e. validate_and_enhance_spec spec md = Inl e) \<longleftrightarrow>
     (truthy (dict_get spec ''x_axis'') \<and> \<not> json_in (dict_get spec ''x_axis'') (columns md))
     \<or> (\<not> truthy (dict_get spec ''title'') \<and>
         \<not> is_str (dict_get_default spec ''chart_type'' (JStr ''Chart'')))"
proof -
  let ?cols = "columns md"
  define s1 where "s1 = set_filters spec ?cols"
  define s4 where "s4 = default_aggregation md (clear_missing ''color_by'' ?cols (clear_missing ''y_axis'' ?cols s1))"
  have x: "dict_get s1 ''x_axis'' = dict_get spec ''x_axis''"
    by (simp add: s1_def dict_get_set_filters)
  have t: "dict_get s4 ''title'' = dict_get spec ''title''"
    by (simp add: s4_def s1_def dict_get_set_filters dict_get_clear_missing dict_get_default_aggregation)
  have "map_of s4 ''chart_type'' = map_of spec ''chart_type''"
    by (simp add: s4_def s1_def map_of_set_filters map_of_clear_missing map_of_default_aggregation)
  then have c: "dict_get_default s4 ''chart_type'' (JStr ''Chart'') = dict_get_default spec ''chart_type'' (JStr ''Chart'')"
    by (rule dict_get_default_via_map_of)
  have "(\<exists>e. validate_and_enhance_spec spec md = Inl e) \<longleftrightarrow>
          (truthy (dict_get s1 ''x_axis'') \<and> \<not> json_in (dict_get s1 ''x_axis'') ?cols)
          \<or> (\<exists>m. default_title s4 = Inl m)"
    by (auto simp: validate_and_enhance_spec_def Let_def s1_def s4_def split: sum.splits)
  then show ?thesis
    by (simp only: x default_title_fails_iff t c)
qed

lemma validate_and_enhance_spec_cleared:
  assumes "validate_and_enhance_spec spec md = Inr s"
    and "k = ''y_axis'' \<or> k = ''color_by''"
    and "truthy (dict_get spec k)" "\<not> json_in (dict_get spec k) (columns md)"
  shows "map_of s k = Some JNull"
proof -
  let ?cols = "columns md"
  define s1 where "s1 = set_filters spec ?cols"
  define s2 where "s2 = clear_missing ''y_axis'' ?cols s1"
  define s3 where "s3 = clear_missing ''color_by'' ?cols s2"
  define s4 where "s4 = default_aggregation md s3"
  from assms(1) obtain s5 where s5: "default_title s4 = Inr s5" and s: "s = default_labels s5"
    by (auto simp: validate_and_enhance_spec_def Let_def s1_def s2_def s3_def s4_def
        split: if_splits sum.splits)
  have k: "k \<noteq> ''x_label''" "k \<noteq> ''y_label''" "k \<noteq> ''title''" "k \<noteq> ''aggregation''" "k \<noteq> ''filters''"
    using assms(2) by auto
  have "map_of s k = map_of s3 k"
    using k by (simp add: s map_of_default_labels map_of_default_title [OF s5] s4_def map_of_default_aggregation)
  moreover have "dict_get s1 k = dict_get spec k"
    using k by (simp add: s1_def dict_get_set_filters)
  ultimately show ?thesis
    using assms(2,3,4)
    by (auto simp: s3_def s2_def clear_missing_def map_of_dict_set dict_get_dict_set)
qed

text \<open>
  C1, as the code has it. For an intent whose default title can be built (a title is
  given, or \<^verbatim>\<open>chart_type\<close> is a string or missing), the function fails exactly when
  \<^verbatim>\<open>x_axis\<close> has a truthy value that is not one of the metadata's columns, and the
  failure is the column-not-found validation error; a missing, null or empty
  \<^verbatim>\<open>x_axis\<close> is accepted. When it succeeds, a \<^verbatim>\<open>y_axis\<close> or \<^verbatim>\<open>color_by\<close> that names
  no column is stored as \<^verbatim>\<open>None\<close>.
\<close>

theorem validate_and_enhance_spec_x_axis:
  assumes "truthy (dict_get spec ''title'') \<or> is_str (dict_get_default spec ''chart_type'' (JStr ''Chart''))"
  shows "((\<exists>e. validate_and_enhance_spec spec md = Inl e) \<longleftrightarrow>
            truthy (dict_get spec ''x_axis'') \<and> \<not> json_in (dict_get spec ''x_axis'') (columns md))
       \<and> (validate_and_enhance_spec spec md =
              Inl (ValueError (ValidationFailed (ColumnNotFound (dict_get spec ''x_axis'')))) \<longleftrightarrow>
            truthy (dict_get spec ''x_axis'') \<and> \<not> json_in (dict_get spec ''x_axis'') (columns md))
       \<and> (\<not> truthy (dict_get spec ''x_axis'') \<longrightarrow> (\<exists>s. validate_and_enhance_spec spec md = Inr s))
       \<and> (\<forall>s. validate_and_enhance_spec spec md = Inr s \<longrightarrow>
            (truthy (dict_get spec ''y_axis'') \<and> \<not> json_in (dict_get spec ''y_axis'') (columns md)
               \<longrightarrow> map_of s ''y_axis'' = Some JNull) \<and>
            (truthy (dict_get spec ''color_by'') \<and> \<not> json_in (dict_get spec ''color_by'') (columns md)
               \<longrightarrow> map_of s ''color_by'' = Some JNull))"
proof -
  have a: "(\<exists>e. validate_and_enhance_spec spec md = Inl e) \<longleftrightarrow>
            truthy (dict_get spec ''x_axis'') \<and> \<not> json_in (dict_get spec ''x_axis'') (columns md)"
    using assms validate_and_enhance_spec_fails [of spec md] by blast
  have b: "validate_and_enhance_spec spec md =
              Inl (ValueError (ValidationFailed (ColumnNotFound (dict_get spec ''x_axis''))))"
    if "truthy (dict_get spec ''x_axis'') \<and> \<not> json_in (dict_get spec ''x_axis'') (columns md)"
    using that by (simp add: validate_and_enhance_spec_def Let_def dict_get_set_filters)
  have c: "\<exists>s. validate_and_enhance_spec spec md = Inr s" if "\<not> truthy (dict_get spec ''x_axis'')"
  proof (cases "validate_and_enhance_spec spec md")
    case (Inl e)
    with a that show ?thesis by blast
  next
    case (Inr s)
    then show ?thesis by blast
  qed
  show ?thesis
    using a b c validate_and_enhance_spec_cleared [of spec md] by blast
qed

lemmas dict_eval = dict_get_def dict_get_default_def dict_has_def py_or_def json_in_def
  example_metadata_def

theorem validate_and_enhance_spec_x_axis_witness:
  "(\<exists>e. validate_and_enhance_spec [(''chart_type'', JStr ''bar''), (''x_axis'', JStr ''name'')]
          example_metadata = Inl e)"
  using validate_and_enhance_spec_x_axis
    [of "[(''chart_type'', JStr ''bar''), (''x_axis'', JStr ''name'')]" example_metadata]
  by (simp add: dict_eval)

text \<open>
  C1 as stated fails: an intent with no \<^verbatim>\<open>x_axis\<close> key is normalized successfully.
\<close>

theorem validate_and_enhance_spec_missing_x_axis:
  "\<not> dict_has [(''chart_type'', JStr ''bar'')] ''x_axis'' \<and>
   validate_and_enhance_spec [(''chart_type'', JStr ''bar'')] example_metadata =
     Inr [(''chart_type'', JStr ''bar''), (''aggregation'', JStr ''count''),
          (''title'', JStr ''Bar Chart''), (''x_label'', JNull), (''y_label'', JStr ''Value'')]"
  by (simp add: validate_and_enhance_spec_def set_filters_def clear_missing_def
      default_aggregation_def default_title_def default_labels_def str_capitalize_def
      char_eval Let_def dict_eval)

text \<open>
  C2. Whenever normalization succeeds, normalizing its result against the same metadata
  succeeds and returns that result unchanged.
\<close>

theorem validate_and_enhance_spec_idempotent:
  "validate_and_enhance_spec spec md = Inr s \<Longrightarrow> validate_and_enhance_spec s md = Inr s"
  by (rule validate_and_enhance_spec_idem)

lemmas normalizer_eval =
  validate_and_enhance_spec_def set_filters_def clear_missing_def default_aggregation_def
  default_title_def default_labels_def normalize_filters_def normalize_filter_def
  normalize_operator_def filter_column_def filter_operator_def filter_value_def op_map_def
  str_capitalize_def str_lower_def str_strip_def char_eval
  py_str_def Let_def dict_eval

lemma example_intent_normalized:
  "validate_and_enhance_spec example_intent example_metadata = Inr example_canonical"
  by (simp add: example_intent_def example_canonical_def example_clause_def normalizer_eval)

theorem validate_and_enhance_spec_idempotent_witness:
  "validate_and_enhance_spec example_intent example_metadata = Inr example_canonical \<and>
   validate_and_enhance_spec example_canonical example_metadata = Inr example_canonical"
  using validate_and_enhance_spec_idempotent [OF example_intent_normalized] example_intent_normalized
  by simp

lemma find_filter: "find P xs = (case filter P xs of [] \<Rightarrow> None | x # _ \<Rightarrow> Some x)"
  by (induction xs) auto

lemma length_map_filter:
  "length (List.map_filter f xs) = length xs - length (filter (\<lambda>x. f x = None) xs)"
proof (induction xs)
  case Nil
  then show ?case by simp
next
  case (Cons x xs)
  have le: "length (filter (\<lambda>x. f x = None) xs) \<le> length xs" by simp
  show ?case
  proof (cases "f x")
    case None
    with Cons show ?thesis by simp
  next
    case (Some a)
    with Cons le show ?thesis by (simp add: Suc_diff_le)
  qed
qed

lemma normalize_filter_dropped:
  "normalize_filter all_columns (JObj d) = None \<longleftrightarrow>
     \<not> truthy (filter_column d) \<or> \<not> truthy (normalize_operator (filter_operator d)) \<or>
     filter_value d = JNull \<or>
     (\<not> json_in (filter_column d) all_columns \<and>
      find (\<lambda>c. str_lower c = str_lower (py_str (filter_column d))) all_columns = None)"
  by (auto simp: normalize_filter_def Let_def find_filter split: list.splits)

lemma normalize_filter_kept:
  "normalize_filter all_columns (JObj d) = Some g \<Longrightarrow>
     g = JObj [(''column'',
                 if json_in (filter_column d) all_columns then filter_column d
                 else (case find (\<lambda>c. str_lower c = str_lower (py_str (filter_column d))) all_columns of
                         Some m \<Rightarrow> JStr m | None \<Rightarrow> JNull)),
               (''operator'', normalize_operator (filter_operator d)),
               (''value'', filter_value d)]"
  by (auto simp: normalize_filter_def Let_def find_filter split: list.splits if_splits)

lemma normalize_operator_table:
  "normalize_operator (JStr o') =
     (let c = str_lower (str_strip o') in
      if c \<in> {''='', ''=='', ''equals'', ''is''} then JStr ''==''
      else if c \<in> {''!='', ''neq'', ''not equals''} then JStr ''!=''
      else JStr c)"
  by (auto simp: normalize_operator_def op_map_def Let_def)

lemma validate_and_enhance_spec_filters:
  assumes "validate_and_enhance_spec spec md = Inr s"
  shows "dict_get s ''filters'' =
           (case dict_get spec ''filters'' of
              JArr fs \<Rightarrow> JArr (normalize_filters (columns md) fs)
            | _ \<Rightarrow> dict_get spec ''filters'')"
proof -
  let ?cols = "columns md"
  define s1 where "s1 = set_filters spec ?cols"
  define s4 where
    "s4 = default_aggregation md (clear_missing ''color_by'' ?cols (clear_missing ''y_axis'' ?cols s1))"
  from assms obtain s5 where s5: "default_title s4 = Inr s5" and s: "s = default_labels s5"
    by (auto simp: validate_and_enhance_spec_def Let_def s1_def s4_def split: if_splits sum.splits)
  have "dict_get s ''filters'' = dict_get s1 ''filters''"
    by (simp add: s dict_get_default_labels dict_get_default_title [OF s5] s4_def
        dict_get_default_aggregation dict_get_clear_missing)
  then show ?thesis
    by (simp add: s1_def set_filters_def dict_get_dict_set split: json.splits)
qed

lemma normalize_filters_Cons:
  "normalize_filters all_columns (f # fs) =
     (case normalize_filter all_columns f of
        None \<Rightarrow> normalize_filters all_columns fs
      | Some g \<Rightarrow> g # normalize_filters all_columns fs)"
  by (simp add: normalize_filters_def List.map_filter_simps split: option.splits)

lemma normalize_filter_not_dict:
  "(\<forall>d. f \<noteq> JObj d) \<Longrightarrow> normalize_filter all_columns f = None"
  by (cases f) (simp_all add: normalize_filter_def)

text \<open>
  C4, as the code has it. When normalization succeeds and the intent's \<^verbatim>\<open>filters\<close> is a
  list, the result's \<^verbatim>\<open>filters\<close> is that list with every clause normalized on its own, in
  order, the dropped ones left out; any other \<^verbatim>\<open>filters\<close> value is left as it is. A
  clause is dropped exactly when it is not a dictionary, its column is missing or falsy,
  its operator is missing or empty after normalization, its value is missing or \<^verbatim>\<open>None\<close>,
  or its column is neither a column name nor equal to one up to case. A kept clause names
  the column itself on an exact match and otherwise the first column equal up to case,
  carries the normalized operator and the value. Operator synonyms are rewritten to
  \<^verbatim>\<open>==\<close> and \<^verbatim>\<open>!=\<close>; every other operator string is kept, stripped and lower-cased. The
  normalized sequence is shorter by the number of dropped clauses, and the example clause
  normalizes as the specification says.
\<close>

theorem normalize_filter_clause:
  "(\<forall>s. validate_and_enhance_spec spec md = Inr s \<longrightarrow>
       dict_get s ''filters'' =
         (case dict_get spec ''filters'' of
            JArr fs \<Rightarrow> JArr (normalize_filters (columns md) fs)
          | _ \<Rightarrow> dict_get spec ''filters''))
   \<and> normalize_filters all_columns [] = []
   \<and> normalize_filters all_columns (f # fs) =
         (case normalize_filter all_columns f of
            None \<Rightarrow> normalize_filters all_columns fs
          | Some g \<Rightarrow> g # normalize_filters all_columns fs)
   \<and> ((\<forall>d. f \<noteq> JObj d) \<longrightarrow> normalize_filter all_columns f = None)
   \<and> (normalize_filter all_columns (JObj d) = None \<longleftrightarrow>
        \<not> truthy (filter_column d) \<or> \<not> truthy (normalize_operator (filter_operator d)) \<or>
        filter_value d = JNull \<or>
        (\<not> json_in (filter_column d) all_columns \<and>
         find (\<lambda>c. str_lower c = str_lower (py_str (filter_column d))) all_columns = None))
   \<and> (\<forall>g. normalize_filter all_columns (JObj d) = Some g \<longrightarrow>
         g = JObj [(''column'',
                     if json_in (filter_column d) all_columns then filter_column d
                     else (case find (\<lambda>c. str_lower c = str_lower (py_str (filter_column d))) all_columns of
                             Some m \<Rightarrow> JStr m | None \<Rightarrow> JNull)),
                   (''operator'', normalize_operator (filter_operator d)),
                   (''value'', filter_value d)])
   \<and> normalize_operator (JStr o') =
         (let c = str_lower (str_strip o') in
          if c \<in> {''='', ''=='', ''equals'', ''is''} then JStr ''==''
          else if c \<in> {''!='', ''neq'', ''not equals''} then JStr ''!=''
          else JStr c)
   \<and> length (normalize_filters all_columns fs) =
         length fs - length (filter (\<lambda>f. normalize_filter all_columns f = None) fs)
   \<and> normalize_filter (columns example_metadata) example_clause =
         Some (JObj [(''column'', JStr ''Age''), (''operator'', JStr ''==''), (''value'', JInt 30)])
   \<and> validate_and_enhance_spec example_intent example_metadata = Inr example_canonical"
proof -
  have link: "\<forall>s. validate_and_enhance_spec spec md = Inr s \<longrightarrow>
       dict_get s ''filters'' =
         (case dict_get spec ''filters'' of
            JArr fs \<Rightarrow> JArr (normalize_filters (columns md) fs)
          | _ \<Rightarrow> dict_get spec ''filters'')"
    using validate_and_enhance_spec_filters [of spec md] by blast
  have nil: "normalize_filters all_columns [] = []"
    by (simp add: normalize_filters_def List.map_filter_simps)
  have nd: "(\<forall>d. f \<noteq> JObj d) \<longrightarrow> normalize_filter all_columns f = None"
    using normalize_filter_not_dict [of f all_columns] by blast
  have ex: "normalize_filter (columns example_metadata) example_clause =
         Some (JObj [(''column'', JStr ''Age''), (''operator'', JStr ''==''), (''value'', JInt 30)])"
    by (simp add: example_clause_def normalizer_eval)
  have len: "length (normalize_filters all_columns fs) =
         length fs - length (filter (\<lambda>f. normalize_filter all_columns f = None) fs)"
    by (simp add: normalize_filters_def length_map_filter)
  show ?thesis
    using link nil normalize_filters_Cons [of all_columns f fs] nd
      normalize_filter_dropped [of all_columns d] normalize_filter_kept [of all_columns d]
      normalize_operator_table [of o'] len ex example_intent_normalized
    by blast
qed

theorem normalize_filter_clause_witness:
  "dict_get example_canonical ''filters'' =
     JArr (normalize_filters [''Age'', ''Name'']
             [example_clause, JObj [(''col'', JStr ''zip''), (''op'', JStr ''==''), (''val'', JInt 1)]]) \<and>
   normalize_filter [''Age'', ''Name'']
     (JObj [(''col'', JStr ''zip''), (''op'', JStr ''==''), (''val'', JInt 1)]) = None \<and>
   normalize_operator (JStr '' Equals '') = JStr ''==''"
  using normalize_filter_clause
    [where spec = example_intent and md = example_metadata
       and all_columns = "[''Age'', ''Name'']"
       and d = "[(''col'', JStr ''zip''), (''op'', JStr ''==''), (''val'', JInt 1)]"
       and o' = "'' Equals ''" and fs = "[]" and f = JNull]
  by (simp add: example_intent_def filter_column_def filter_operator_def filter_value_def
      str_lower_def str_strip_def char_eval py_str_def Let_def dict_eval)

text \<open>
  C4 as stated fails: a clause whose operator is not in the synonym table is kept by the
  normalizer, with that operator.
\<close>

theorem normalize_filter_unrecognized_operator:
  "map_of op_map ''between'' = None \<and>
   validate_and_enhance_spec between_intent example_metadata =
     Inr [(''chart_type'', JStr ''bar''), (''x_axis'', JStr ''Name''),
          (''filters'',
           JArr [JObj [(''column'', JStr ''Age''), (''operator'', JStr ''between''),
                       (''value'', JInt 30)]]),
          (''aggregation'', JStr ''count''), (''title'', JStr ''Bar Chart''),
          (''x_label'', JStr ''Name''), (''y_label'', JStr ''Value'')]"
  by (simp add: between_intent_def normalizer_eval)

text \<open>
  C8. The default of \<^verbatim>\<open>y_label\<close> is \<^verbatim>\<open>spec.get('y_axis', 'Value')\<close>: the literal is used
  only when the key is missing. With \<^verbatim>\<open>y_axis\<close> present and \<^verbatim>\<open>None\<close>, which is what the
  prompt asks the model for and what the function itself stores for an unknown column,
  \<^verbatim>\<open>y_label\<close> becomes \<^verbatim>\<open>None\<close>.
\<close>

theorem validate_and_enhance_spec_y_label_null:
  "validate_and_enhance_spec
     [(''chart_type'', JStr ''bar''), (''x_axis'', JStr ''Name''), (''y_axis'', JNull)]
     example_metadata =
   Inr [(''chart_type'', JStr ''bar''), (''x_axis'', JStr ''Name''), (''y_axis'', JNull),
        (''aggregation'', JStr ''count''), (''title'', JStr ''Bar Chart''),
        (''x_label'', JStr ''Name''), (''y_label'', JNull)]"
  by (simp add: normalizer_eval)

lemma complete_pairs_same:
  "complete_pairs xs xs = map (\<lambda>a. (a, a)) (List.map_filter cell_num xs)"
proof (induction xs)
  case Nil
  then show ?case by (simp add: complete_pairs_def)
next
  case (Cons x xs)
  then show ?case
    by (cases "cell_num x") (simp_all add: complete_pairs_def)
qed

lemma pearson_constant: "constant_column xs \<Longrightarrow> pearson lib xs xs = Null"
  by (simp add: pearson_def complete_pairs_same constant_column_def Let_def comp_def)

lemma df_corr_entry:
  "i < length t \<Longrightarrow> j < length t \<Longrightarrow>
     col_cells (df_corr lib t ! j) ! i =
       pearson lib (col_cells (t ! max i j)) (col_cells (t ! min i j))"
  by (simp add: df_corr_def)

lemma df_corr_diagonal:
  "i < length t \<Longrightarrow> constant_column (col_cells (t ! i)) \<Longrightarrow>
     col_cells (df_corr lib t ! i) ! i = Null"
  by (simp add: df_corr_entry pearson_constant)

lemma df_corr_columns: "df_columns (df_corr lib t) = df_columns t"
proof -
  have "map (\<lambda>j. col_name (t ! j)) [0..<length t] = map col_name t"
    by (rule nth_equalityI) simp_all
  then show ?thesis
    by (simp add: df_corr_def df_columns_def comp_def)
qed

lemma filter_same_key:
  "distinct (map f xs) \<Longrightarrow> x \<in> set xs \<Longrightarrow> filter (\<lambda>c. f c = f x) xs = [x]"
proof (induction xs)
  case Nil
  then show ?case by simp
next
  case (Cons y ys)
  show ?case
  proof (cases "x = y")
    case True
    from Cons.prems(1) have "f y \<notin> f ` set ys" by simp
    then have "\<forall>c\<in>set ys. f c \<noteq> f y" by (metis imageI)
    then have "filter (\<lambda>c. f c = f y) ys = []"
      by (simp add: filter_empty_conv)
    with True show ?thesis by simp
  next
    case False
    with Cons.prems have "x \<in> set ys" "f y \<noteq> f x" by auto
    with Cons show ?thesis by simp
  qed
qed

lemma df_select_distinct:
  assumes "distinct (df_columns t)"
  shows "df_select (df_columns t) t = t"
proof -
  have "map (\<lambda>n. filter (\<lambda>c. col_name c = n) t) (map col_name t) = map (\<lambda>c. [c]) t"
    using assms by (simp add: df_columns_def filter_same_key)
  then have "df_select (df_columns t) t = concat (map (\<lambda>c. [c]) t)"
    unfolding df_select_def df_columns_def by (rule arg_cong)
  then show ?thesis by simp
qed

lemma keep_rows_names: "map col_name (keep_rows keep t) = map col_name t"
  by (simp add: keep_rows_def comp_def)

lemma select_dtypes_keep_rows:
  "select_dtypes_number (keep_rows keep t) = keep_rows keep (select_dtypes_number t)"
  by (simp add: select_dtypes_number_def keep_rows_def filter_map comp_def)

lemma heatmap_columns_distinct:
  assumes "distinct (df_columns df)"
  shows "df_columns (select_dtypes_number (dropna_rows (dropna_columns (df_select (df_columns df) df)))) =
         map col_name (filter (\<lambda>c. is_number (col_dtype c) \<and> \<not> list_all is_null (col_cells c)) df)"
proof -
  have "df_columns (select_dtypes_number (dropna_rows (dropna_columns df))) =
        map col_name (select_dtypes_number (dropna_columns df))"
    by (simp add: dropna_rows_def select_dtypes_keep_rows df_columns_def keep_rows_names)
  also have "select_dtypes_number (dropna_columns df) =
             filter (\<lambda>c. is_number (col_dtype c) \<and> \<not> list_all is_null (col_cells c)) df"
    by (simp add: select_dtypes_number_def dropna_columns_def conj_commute)
  finally show ?thesis
    by (simp add: df_select_distinct [OF assms])
qed

lemma dropna_rows_keeps_value:
  assumes rect: "\<forall>c\<in>set t. length (col_cells c) = nrows t"
    and c: "c \<in> set t" and v: "\<not> list_all is_null (col_cells c)"
  shows "\<exists>c'\<in>set (dropna_rows t). col_name c' = col_name c \<and> col_dtype c' = col_dtype c"
    and "\<forall>c'\<in>set (dropna_rows t). col_cells c' \<noteq> []"
proof -
  let ?keep = "map (\<lambda>i. \<not> list_all (\<lambda>c. is_null (col_cells c ! i)) t) [0..<nrows t]"
  from v obtain i where i: "i < length (col_cells c)" "\<not> is_null (col_cells c ! i)"
    by (auto simp: list_all_length)
  from rect c i have n: "i < nrows t" by simp
  have k: "?keep ! i" using n i(2) c by (auto simp: list_all_iff)
  show "\<exists>c'\<in>set (dropna_rows t). col_name c' = col_name c \<and> col_dtype c' = col_dtype c"
    using c by (auto simp: dropna_rows_def keep_rows_def intro!: bexI [of _ c])
  show "\<forall>c'\<in>set (dropna_rows t). col_cells c' \<noteq> []"
  proof
    fix c' assume "c' \<in> set (dropna_rows t)"
    then obtain d where d: "d \<in> set t"
      and c': "col_cells c' = map snd (filter fst (zip ?keep (col_cells d)))"
      by (auto simp: dropna_rows_def keep_rows_def)
    from rect d have ld: "length (col_cells d) = nrows t" by simp
    have "(?keep ! i, col_cells d ! i) \<in> set (zip ?keep (col_cells d))"
      using n ld by (auto simp: set_zip intro!: exI [of _ i])
    then have "(True, col_cells d ! i) \<in> set (filter fst (zip ?keep (col_cells d)))"
      using k by simp
    then have "filter fst (zip ?keep (col_cells d)) \<noteq> []"
      by (rule_tac notI) simp
    then show "col_cells c' \<noteq> []"
      unfolding c' by simp
  qed
qed

lemma heatmap_rows_left:
  assumes rect: "\<forall>c\<in>set df. length (col_cells c) = nrows df"
    and ne: "select_dtypes_number (dropna_rows (dropna_columns (df_select (df_columns df) df))) \<noteq> []"
  shows "\<not> df_empty (select_dtypes_number (dropna_rows (dropna_columns (df_select (df_columns df) df))))"
proof -
  let ?s = "dropna_columns (df_select (df_columns df) df)"
  have sub: "set ?s \<subseteq> set df"
    by (auto simp: dropna_columns_def df_select_def)
  from ne have sne: "?s \<noteq> []"
    by (auto simp: select_dtypes_number_def dropna_rows_def keep_rows_def)
  then obtain c where c: "c \<in> set ?s" by (cases ?s) auto
  then have v: "\<not> list_all is_null (col_cells c)" by (simp add: dropna_columns_def)
  have "nrows ?s = nrows df"
  proof -
    from sne have "hd ?s \<in> set ?s" by simp
    with sub rect have "length (col_cells (hd ?s)) = nrows df" by blast
    with sne show ?thesis by (cases ?s) (simp_all add: nrows_def)
  qed
  with sub rect have r: "\<forall>c\<in>set ?s. length (col_cells c) = nrows ?s" by auto
  have all: "\<forall>c'\<in>set (dropna_rows ?s). col_cells c' \<noteq> []"
    using r c v by (rule dropna_rows_keeps_value(2))
  let ?n = "select_dtypes_number (dropna_rows ?s)"
  from ne have "hd ?n \<in> set ?n" by simp
  then have "hd ?n \<in> set (dropna_rows ?s)" by (simp add: select_dtypes_number_def)
  with all have "col_cells (hd ?n) \<noteq> []" by blast
  with ne show ?thesis
    by (cases ?n) (simp_all add: df_empty_def nrows_def)
qed

lemma heatmap_columns_available:
  "filter (\<lambda>col. json_in col names) (map JStr names) = map JStr names"
  by (simp add: filter_map comp_def json_in_def)

lemma json_label_JStr: "map json_label (map JStr names) = names"
  by (simp add: json_label_def comp_def)

lemma prepare_data_all_numeric:
  "prepare_data df (map JStr (df_columns df)) True =
     (if df = [] then Inl (ValueError NoRequiredColumns)
      else if df_empty (select_dtypes_number (dropna_rows (dropna_columns (df_select (df_columns df) df))))
      then Inl (ValueError NoNumericColumns)
      else Inr (select_dtypes_number (dropna_rows (dropna_columns (df_select (df_columns df) df)))))"
proof -
  have "list_all hashable (map JStr (df_columns df))"
    by (simp add: list_all_iff)
  then show ?thesis
    unfolding prepare_data_def heatmap_columns_available json_label_JStr Let_def
    by (simp add: df_columns_def)
qed

lemma create_heatmap_fails:
  assumes "length (select_dtypes_number (dropna_rows (dropna_columns (df_select (df_columns df) df)))) < 2
           \<or> df_empty (select_dtypes_number (dropna_rows (dropna_columns (df_select (df_columns df) df))))"
  shows "create_heatmap lib df spec =
           Inl (ValueError (ErrorCreating ''heatmap''
             (if df = [] then NoRequiredColumns
              else if df_empty (select_dtypes_number (dropna_rows (dropna_columns (df_select (df_columns df) df))))
              then NoNumericColumns else HeatmapNeedsTwo)))"
  using assms
  unfolding create_heatmap_def prepare_data_all_numeric
  by (auto simp: wrap_error_def)

lemma create_heatmap_renders:
  assumes "2 \<le> length (select_dtypes_number (dropna_rows (dropna_columns (df_select (df_columns df) df))))"
    and "\<not> df_empty (select_dtypes_number (dropna_rows (dropna_columns (df_select (df_columns df) df))))"
  shows "create_heatmap lib df spec =
           (case px lib ''imshow''
                   (df_corr lib (select_dtypes_number (dropna_rows (dropna_columns (df_select (df_columns df) df)))))
                   (heatmap_kwargs spec) of
              None \<Rightarrow> Inl (ValueError (ErrorCreating ''heatmap'' LibraryError))
            | Some fig \<Rightarrow> Inr fig)"
proof -
  from assms(1) have "df \<noteq> []"
    by (auto simp: df_select_def df_columns_def dropna_columns_def dropna_rows_def keep_rows_def
        select_dtypes_number_def)
  with assms show ?thesis
    unfolding create_heatmap_def prepare_data_all_numeric
    by (simp add: wrap_error_def px_call_def heatmap_kwargs_def Let_def split: option.splits)
qed

text \<open>
  C6, as the code has it. The selection of the heatmap builder (\<^verbatim>\<open>_prepare_data\<close> on all
  columns with \<^verbatim>\<open>numeric_only\<close>) keeps the columns of numeric dtype that are not entirely
  missing, without the rows that are entirely missing; on a table whose columns have the
  same length it has a row as soon as it has a column. The builder fails when fewer than
  2 columns are left. With 2 or more it hands plotly the pairwise correlation matrix of
  these columns and returns the figure when the plotting call succeeds. The diagonal
  entry of a column that is constant on its non-missing rows is missing (\<^verbatim>\<open>NaN\<close>).
\<close>

theorem create_heatmap_correlation:
  "(let numeric_df = select_dtypes_number (dropna_rows (dropna_columns (df_select (df_columns df) df)))
    in (\<forall>c\<in>set numeric_df. is_number (col_dtype c))
     \<and> (distinct (df_columns df) \<longrightarrow>
          df_columns numeric_df =
            map col_name (filter (\<lambda>c. is_number (col_dtype c) \<and> \<not> list_all is_null (col_cells c)) df))
     \<and> ((\<forall>c\<in>set df. length (col_cells c) = nrows df) \<and> numeric_df \<noteq> [] \<longrightarrow> \<not> df_empty numeric_df)
     \<and> (length numeric_df < 2 \<or> df_empty numeric_df \<longrightarrow>
          create_heatmap lib df spec =
            Inl (ValueError (ErrorCreating ''heatmap''
              (if df = [] then NoRequiredColumns
               else if df_empty numeric_df then NoNumericColumns else HeatmapNeedsTwo))))
     \<and> (2 \<le> length numeric_df \<and> \<not> df_empty numeric_df \<longrightarrow>
          create_heatmap lib df spec =
            (case px lib ''imshow'' (df_corr lib numeric_df) (heatmap_kwargs spec) of
               None \<Rightarrow> Inl (ValueError (ErrorCreating ''heatmap'' LibraryError))
             | Some fig \<Rightarrow> Inr fig)
          \<and> df_columns (df_corr lib numeric_df) = df_columns numeric_df
          \<and> (\<forall>i<length numeric_df. \<forall>j<length numeric_df.
                col_cells (df_corr lib numeric_df ! j) ! i =
                  pearson lib (col_cells (numeric_df ! max i j)) (col_cells (numeric_df ! min i j)))
          \<and> (\<forall>i<length numeric_df.
                constant_column (col_cells (numeric_df ! i)) \<longrightarrow>
                  col_cells (df_corr lib numeric_df ! i) ! i = Null)))"
proof -
  let ?n = "select_dtypes_number (dropna_rows (dropna_columns (df_select (df_columns df) df)))"
  have a: "\<forall>c\<in>set ?n. is_number (col_dtype c)"
    by (simp add: select_dtypes_number_def)
  have b: "distinct (df_columns df) \<longrightarrow>
          df_columns ?n =
            map col_name (filter (\<lambda>c. is_number (col_dtype c) \<and> \<not> list_all is_null (col_cells c)) df)"
    using heatmap_columns_distinct [of df] by blast
  have c: "(\<forall>c\<in>set df. length (col_cells c) = nrows df) \<and> ?n \<noteq> [] \<longrightarrow> \<not> df_empty ?n"
    using heatmap_rows_left [of df] by blast
  have d: "length ?n < 2 \<or> df_empty ?n \<longrightarrow>
          create_heatmap lib df spec =
            Inl (ValueError (ErrorCreating ''heatmap''
              (if df = [] then NoRequiredColumns
               else if df_empty ?n then NoNumericColumns else HeatmapNeedsTwo)))"
    using create_heatmap_fails [of df lib spec] by blast
  have e: "2 \<le> length ?n \<and> \<not> df_empty ?n \<longrightarrow>
          create_heatmap lib df spec =
            (case px lib ''imshow'' (df_corr lib ?n) (heatmap_kwargs spec) of
               None \<Rightarrow> Inl (ValueError (ErrorCreating ''heatmap'' LibraryError))
             | Some fig \<Rightarrow> Inr fig)"
    using create_heatmap_renders [of df lib spec] by blast
  have f: "df_columns (df_corr lib ?n) = df_columns ?n"
    by (rule df_corr_columns)
  have g: "\<forall>i<length ?n. \<forall>j<length ?n.
                col_cells (df_corr lib ?n ! j) ! i =
                  pearson lib (col_cells (?n ! max i j)) (col_cells (?n ! min i j))"
    by (simp add: df_corr_entry)
  have h: "\<forall>i<length ?n. constant_column (col_cells (?n ! i)) \<longrightarrow>
                  col_cells (df_corr lib ?n ! i) ! i = Null"
    by (simp add: df_corr_diagonal)
  show ?thesis
    unfolding Let_def using a b c d e f g h by blast
qed

lemmas table_eval =
  prepare_data_def df_select_def df_columns_def dropna_columns_def dropna_rows_def keep_rows_def
  select_dtypes_number_def df_empty_def nrows_def is_null_def is_number_def json_label_def
  df_column_def dropna_subset_def df_setitem_def wrap_error_def px_call_def

lemma constant_table_selection:
  "select_dtypes_number (dropna_rows (dropna_columns (df_select (df_columns constant_table) constant_table))) =
     constant_table"
  by (simp add: constant_table_def table_eval)

theorem create_heatmap_correlation_witness:
  "create_heatmap example_library constant_table [] =
     Inr (''imshow'', df_corr example_library constant_table, heatmap_kwargs []) \<and>
   col_cells (df_corr example_library constant_table ! 0) ! 0 = Null"
  using create_heatmap_correlation [where df = constant_table and lib = example_library and spec = "[]"]
  unfolding Let_def constant_table_selection
  by (simp add: constant_table_def example_library_def df_empty_def nrows_def df_columns_def
      constant_column_def single_valued_def cell_num_def List.map_filter_simps pearson_def
      complete_pairs_def is_number_def is_null_def Let_def)

text \<open>
  C6 as stated fails: with two numeric columns, one of them constant, the builder
  succeeds and the diagonal entry of the constant column is missing, not 1.
\<close>

theorem create_heatmap_constant_column:
  "create_heatmap example_library constant_table [] =
     Inr (''imshow'',
          [\<lparr>col_name = ''a'', col_dtype = Float64, col_cells = [Null, Null]\<rparr>,
           \<lparr>col_name = ''b'', col_dtype = Float64, col_cells = [Null, FloatV 1]\<rparr>],
          heatmap_kwargs []) \<and>
   length (select_dtypes_number constant_table) = 2 \<and>
   col_cells (df_corr example_library constant_table ! 0) ! 0 = Null"
  by (simp add: create_heatmap_def constant_table_def example_library_def table_eval json_in_def
      heatmap_kwargs_def df_corr_def pearson_def complete_pairs_def single_valued_def cell_num_def
      List.map_filter_simps upt_conv_Cons Let_def)

text \<open>
  C5. On a table with a text column that no value of which converts and a numeric column
  beside it, the histogram builder fails: \<^verbatim>\<open>_ensure_numeric\<close> raises when nothing is left,
  and the fallback looks for numeric columns in a table that holds the requested column
  only. A column of which some values convert is coerced and the other rows dropped.
\<close>

theorem create_histogram_no_fallback:
  assumes "to_numeric lib [StrV ''ann'', StrV ''bob''] = Some (Float64, [Null, Null])"
    and "to_numeric lib [StrV ''1'', StrV ''2'', StrV ''x'', StrV ''4''] =
           Some (Float64, [FloatV 1, FloatV 2, Null, FloatV 4])"
  shows "df_columns (select_dtypes_number names_table) = [''n''] \<and>
         create_histogram lib names_table (histogram_spec ''name'') =
           Inl (ValueError (ErrorCreating ''histogram'' (CannotConvert NoValidNumeric))) \<and>
         create_histogram lib digits_table (histogram_spec ''v'') =
           wrap_error ''histogram''
             (px_call lib ''histogram''
                [\<lparr>col_name = ''v'', col_dtype = Float64, col_cells = [FloatV 1, FloatV 2, FloatV 4]\<rparr>]
                [(''x'', JStr ''v''), (''nbins'', JInt 20), (''title'', JStr ''Histogram'')])"
proof -
  have a: "df_columns (select_dtypes_number names_table) = [''n'']"
    by (simp add: names_table_def table_eval)
  have b: "create_histogram lib names_table (histogram_spec ''name'') =
           Inl (ValueError (ErrorCreating ''histogram'' (CannotConvert NoValidNumeric)))"
    using assms(1)
    by (simp add: create_histogram_def ensure_numeric_def histogram_spec_def names_table_def
        table_eval dict_get_def dict_get_default_def json_in_def Let_def)
  have c: "create_histogram lib digits_table (histogram_spec ''v'') =
           wrap_error ''histogram''
             (px_call lib ''histogram''
                [\<lparr>col_name = ''v'', col_dtype = Float64, col_cells = [FloatV 1, FloatV 2, FloatV 4]\<rparr>]
                [(''x'', JStr ''v''), (''nbins'', JInt 20), (''title'', JStr ''Histogram'')])"
    using assms(2)
    by (simp add: create_histogram_def ensure_numeric_def histogram_spec_def digits_table_def
        table_eval dict_get_def dict_get_default_def json_in_def Let_def)
  from a b c show ?thesis by simp
qed

theorem create_histogram_no_fallback_witness:
  "create_histogram example_library names_table (histogram_spec ''name'') =
     Inl (ValueError (ErrorCreating ''histogram'' (CannotConvert NoValidNumeric)))"
  using create_histogram_no_fallback [where lib = example_library]
  by (simp add: example_library_def)

lemma df_columns_keep_rows: "df_columns (keep_rows keep t) = df_columns t"
  by (simp add: df_columns_def keep_rows_def comp_def)

lemma df_columns_dropna_rows: "df_columns (dropna_rows t) = df_columns t"
  by (simp add: dropna_rows_def df_columns_keep_rows)

lemma set_df_columns_dropna_columns: "set (df_columns (dropna_columns t)) \<subseteq> set (df_columns t)"
  by (auto simp: df_columns_def dropna_columns_def)

lemma set_df_columns_select_dtypes: "set (df_columns (select_dtypes_number t)) \<subseteq> set (df_columns t)"
  by (auto simp: df_columns_def select_dtypes_number_def)

lemma set_df_columns_df_select: "set (df_columns (df_select names t)) \<subseteq> set names"
  by (auto simp: df_columns_def df_select_def)

lemma prepare_data_columns:
  assumes "prepare_data df cols numeric_only = Inr t"
  shows "set (df_columns t) \<subseteq> json_label ` set cols"
proof -
  let ?av = "filter (\<lambda>col. json_in col (df_columns df)) cols"
  let ?p = "dropna_rows (dropna_columns (df_select (map json_label ?av) df))"
  have p: "set (df_columns ?p) \<subseteq> json_label ` set cols"
    using set_df_columns_dropna_columns [of "df_select (map json_label ?av) df"]
      set_df_columns_df_select [of "map json_label ?av" df]
    by (auto simp: df_columns_dropna_rows)
  from assms have "t = ?p \<or> t = select_dtypes_number ?p"
    by (auto simp: prepare_data_def Let_def split: if_splits)
  then show ?thesis
    using p set_df_columns_select_dtypes [of ?p] by auto
qed

lemma get_columns_for_chart_nonempty:
  "get_columns_for_chart spec \<noteq> [] \<longleftrightarrow>
     truthy (dict_get spec ''x_axis'') \<or> truthy (dict_get spec ''y_axis'') \<or>
     truthy (dict_get spec ''color_by'')"
  by (simp add: get_columns_for_chart_def)

lemma get_columns_for_chart_subset:
  "set (get_columns_for_chart spec) \<subseteq>
     {dict_get spec ''x_axis'', dict_get spec ''y_axis'', dict_get spec ''color_by''}"
  by (auto simp: get_columns_for_chart_def)

lemma chart_table_prepared:
  assumes "chart_table lib df spec = Inr t" "get_columns_for_chart spec \<noteq> []"
  shows "\<exists>filtered_df. prepare_data filtered_df (get_columns_for_chart spec) False = Inr t"
  using assms by (auto simp: chart_table_def Let_def split: sum.splits)

lemma chart_table_columns:
  assumes "chart_table lib df spec = Inr t" "get_columns_for_chart spec \<noteq> []"
  shows "set (df_columns t) \<subseteq> json_label ` set (get_columns_for_chart spec)"
proof -
  from assms obtain filtered_df where
    "prepare_data filtered_df (get_columns_for_chart spec) False = Inr t"
    using chart_table_prepared by blast
  then show ?thesis by (rule prepare_data_columns)
qed

lemma generate_chart_dispatch:
  assumes "generate_chart lib df spec = Inr r"
  shows "\<exists>s f t fig. dict_get_default spec ''chart_type'' (JStr []) = JStr s \<and>
           map_of chart_functions (str_lower s) = Some f \<and>
           chart_table lib df spec = Inr t \<and> f lib t spec = Inr fig"
proof -
  from assms obtain s where s: "dict_get_default spec ''chart_type'' (JStr []) = JStr s"
    by (cases "dict_get_default spec ''chart_type'' (JStr [])")
       (auto simp: generate_chart_def)
  show ?thesis
    using assms unfolding generate_chart_def s Let_def
    by (auto split: option.splits sum.splits)
qed

lemma chart_functions_heatmap: "map_of chart_functions ''heatmap'' = Some create_heatmap"
  by (simp add: chart_functions_def)

lemma create_heatmap_succeeds:
  assumes "create_heatmap lib t spec = Inr fig"
  shows "2 \<le> length (select_dtypes_number (dropna_rows (dropna_columns (df_select (df_columns t) t))))"
proof (rule ccontr)
  assume "\<not> ?thesis"
  then have "length (select_dtypes_number (dropna_rows (dropna_columns (df_select (df_columns t) t)))) < 2"
    by simp
  then have "\<exists>m. create_heatmap lib t spec = Inl (ValueError (ErrorCreating ''heatmap'' m))"
    using create_heatmap_fails [of t lib spec] by blast
  with assms show False by auto
qed

lemma heatmap_selection_columns:
  "set (df_columns (select_dtypes_number (dropna_rows (dropna_columns (df_select (df_columns t) t)))))
     \<subseteq> set (df_columns t)"
  using set_df_columns_select_dtypes
    [of "dropna_rows (dropna_columns (df_select (df_columns t) t))"]
    set_df_columns_dropna_columns [of "df_select (df_columns t) t"]
    set_df_columns_df_select [of "df_columns t" t]
  by (auto simp: df_columns_dropna_rows)

lemma generate_chart_heatmap:
  assumes ok: "generate_chart lib df spec = Inr r"
    and x: "truthy (dict_get spec ''x_axis'')"
    and ct: "dict_get_default spec ''chart_type'' (JStr []) = JStr s" "str_lower s = ''heatmap''"
  shows "\<exists>t. chart_table lib df spec = Inr t \<and>
           set (df_columns t) \<subseteq> json_label ` set (get_columns_for_chart spec) \<and>
           (let numeric_df = select_dtypes_number (dropna_rows (dropna_columns (df_select (df_columns t) t)))
            in 2 \<le> length numeric_df \<and>
               (\<forall>c\<in>set numeric_df. is_number (col_dtype c) \<and>
                  col_name c \<in> json_label ` set (get_columns_for_chart spec)))"
proof -
  from generate_chart_dispatch [OF ok] ct obtain t fig where t: "chart_table lib df spec = Inr t"
    and h: "create_heatmap lib t spec = Inr fig"
    by (auto simp: chart_functions_heatmap)
  let ?n = "select_dtypes_number (dropna_rows (dropna_columns (df_select (df_columns t) t)))"
  have ne: "get_columns_for_chart spec \<noteq> []"
    using x by (simp add: get_columns_for_chart_def)
  have sub: "set (df_columns t) \<subseteq> json_label ` set (get_columns_for_chart spec)"
    using t ne by (rule chart_table_columns)
  have two: "2 \<le> length ?n"
    using h by (rule create_heatmap_succeeds)
  have num: "\<forall>c\<in>set ?n. is_number (col_dtype c)"
    by (simp add: select_dtypes_number_def)
  have "set (df_columns ?n) \<subseteq> set (df_columns t)"
    by (rule heatmap_selection_columns)
  from this sub have "set (df_columns ?n) \<subseteq> json_label ` set (get_columns_for_chart spec)"
    by (rule subset_trans)
  then have "col_name ` set ?n \<subseteq> json_label ` set (get_columns_for_chart spec)"
    by (simp add: df_columns_def)
  then have names: "\<forall>c\<in>set ?n. col_name c \<in> json_label ` set (get_columns_for_chart spec)"
    by blast
  show ?thesis
    unfolding Let_def using t sub two num names by blast
qed

lemma heatmap_spec_chart_table:
  "chart_table lib three_numeric heatmap_spec =
     Inr [\<lparr>col_name = ''a'', col_dtype = Int64, col_cells = [IntV 1, IntV 2]\<rparr>]"
  by (simp add: chart_table_def filtered_table_def aggregated_table_def get_columns_for_chart_def
      heatmap_spec_def three_numeric_def table_eval dict_get_def dict_get_default_def json_in_def
      Let_def)

lemma heatmap_spec_fails:
  "generate_chart lib three_numeric heatmap_spec =
     Inl (Exception (ErrorGenerating (ErrorCreating ''heatmap'' HeatmapNeedsTwo)))"
proof -
  have ct: "dict_get_default heatmap_spec ''chart_type'' (JStr []) = JStr ''heatmap''"
    by (simp add: heatmap_spec_def dict_get_default_def)
  have lo: "str_lower ''heatmap'' = ''heatmap''"
    by (simp add: str_lower_def char_eval)
  have h: "create_heatmap lib [\<lparr>col_name = ''a'', col_dtype = Int64, col_cells = [IntV 1, IntV 2]\<rparr>]
             heatmap_spec = Inl (ValueError (ErrorCreating ''heatmap'' HeatmapNeedsTwo))"
    by (simp add: create_heatmap_def table_eval json_in_def Let_def)
  show ?thesis
    by (simp add: generate_chart_def ct lo chart_functions_heatmap heatmap_spec_chart_table h Let_def)
qed

lemma heatmap_all_columns:
  "generate_chart example_library three_numeric [(''chart_type'', JStr ''heatmap'')] =
     Inr ([(''chart_type'', JStr ''heatmap'')],
          (''imshow'', df_corr example_library three_numeric, heatmap_kwargs []))"
proof -
  have ct: "dict_get_default [(''chart_type'', JStr ''heatmap'')] ''chart_type'' (JStr []) = JStr ''heatmap''"
    by (simp add: dict_get_default_def)
  have lo: "str_lower ''heatmap'' = ''heatmap''"
    by (simp add: str_lower_def char_eval)
  have t: "chart_table example_library three_numeric [(''chart_type'', JStr ''heatmap'')] = Inr three_numeric"
    by (simp add: chart_table_def filtered_table_def aggregated_table_def get_columns_for_chart_def
      three_numeric_def table_eval dict_get_def dict_get_default_def Let_def)
  have sel: "select_dtypes_number (dropna_rows (dropna_columns (df_select (df_columns three_numeric) three_numeric))) =
     three_numeric"
    by (simp add: three_numeric_def table_eval)
  have h: "create_heatmap example_library three_numeric [(''chart_type'', JStr ''heatmap'')] =
             Inr (''imshow'', df_corr example_library three_numeric, heatmap_kwargs [])"
    using create_heatmap_renders [of three_numeric example_library "[(''chart_type'', JStr ''heatmap'')]"]
    unfolding sel
    by (simp add: three_numeric_def df_empty_def nrows_def example_library_def heatmap_kwargs_def
        dict_get_default_def)
  have c: "apply_customizations example_library
             (''imshow'', df_corr example_library three_numeric, heatmap_kwargs []) (JObj []) =
           Inr (''imshow'', df_corr example_library three_numeric, heatmap_kwargs [])"
    by (simp add: apply_customizations_def then_fig_def fig_call_def example_library_def
        dict_get_def dict_get_default_def)
  have cu: "dict_get_default [(''chart_type'', JStr ''heatmap'')] ''customization'' (JObj []) = JObj []"
    by (simp add: dict_get_default_def)
  show ?thesis
    by (simp add: generate_chart_def ct lo chart_functions_heatmap t h cu c Let_def)
qed

text \<open>
  C10. When one of \<^verbatim>\<open>x_axis\<close>, \<^verbatim>\<open>y_axis\<close>, \<^verbatim>\<open>color_by\<close> is set, the table that
  \<^verbatim>\<open>generate_chart\<close> hands to the chart builder holds no column but those they name, and a
  successful render is the builder's figure on that table. With \<^verbatim>\<open>x_axis\<close> set, a
  heatmap therefore succeeds only if two of the named columns are numeric: on a table
  with three numeric columns and a specification naming one of them it fails, while
  without any named column it renders all three.
\<close>

theorem generate_chart_selects_columns:
  "(get_columns_for_chart spec \<noteq> [] \<longleftrightarrow>
      truthy (dict_get spec ''x_axis'') \<or> truthy (dict_get spec ''y_axis'') \<or>
      truthy (dict_get spec ''color_by''))
   \<and> set (get_columns_for_chart spec) \<subseteq>
        {dict_get spec ''x_axis'', dict_get spec ''y_axis'', dict_get spec ''color_by''}
   \<and> (\<forall>t. chart_table lib df spec = Inr t \<and> get_columns_for_chart spec \<noteq> [] \<longrightarrow>
         (\<exists>filtered_df. prepare_data filtered_df (get_columns_for_chart spec) False = Inr t) \<and>
         set (df_columns t) \<subseteq> json_label ` set (get_columns_for_chart spec))
   \<and> (\<forall>r. generate_chart lib df spec = Inr r \<longrightarrow>
         (\<exists>s f t fig. dict_get_default spec ''chart_type'' (JStr []) = JStr s \<and>
            map_of chart_functions (str_lower s) = Some f \<and>
            chart_table lib df spec = Inr t \<and> f lib t spec = Inr fig))
   \<and> (\<forall>r s. generate_chart lib df spec = Inr r \<and> truthy (dict_get spec ''x_axis'') \<and>
          dict_get_default spec ''chart_type'' (JStr []) = JStr s \<and> str_lower s = ''heatmap'' \<longrightarrow>
        (\<exists>t. chart_table lib df spec = Inr t \<and>
           set (df_columns t) \<subseteq> json_label ` set (get_columns_for_chart spec) \<and>
           (let numeric_df = select_dtypes_number (dropna_rows (dropna_columns (df_select (df_columns t) t)))
            in 2 \<le> length numeric_df \<and>
               (\<forall>c\<in>set numeric_df. is_number (col_dtype c) \<and>
                  col_name c \<in> json_label ` set (get_columns_for_chart spec)))))
   \<and> length (select_dtypes_number three_numeric) = 3
   \<and> generate_chart lib three_numeric heatmap_spec =
         Inl (Exception (ErrorGenerating (ErrorCreating ''heatmap'' HeatmapNeedsTwo)))
   \<and> generate_chart example_library three_numeric [(''chart_type'', JStr ''heatmap'')] =
         Inr ([(''chart_type'', JStr ''heatmap'')],
              (''imshow'', df_corr example_library three_numeric, heatmap_kwargs []))"
proof -
  have a: "\<forall>t. chart_table lib df spec = Inr t \<and> get_columns_for_chart spec \<noteq> [] \<longrightarrow>
         (\<exists>filtered_df. prepare_data filtered_df (get_columns_for_chart spec) False = Inr t) \<and>
         set (df_columns t) \<subseteq> json_label ` set (get_columns_for_chart spec)"
    using chart_table_prepared [of lib df spec] chart_table_columns [of lib df spec] by blast
  have b: "\<forall>r. generate_chart lib df spec = Inr r \<longrightarrow>
         (\<exists>s f t fig. dict_get_default spec ''chart_type'' (JStr []) = JStr s \<and>
            map_of chart_functions (str_lower s) = Some f \<and>
            chart_table lib df spec = Inr t \<and> f lib t spec = Inr fig)"
    using generate_chart_dispatch [of lib df spec] by blast
  have c: "\<forall>r s. generate_chart lib df spec = Inr r \<and> truthy (dict_get spec ''x_axis'') \<and>
          dict_get_default spec ''chart_type'' (JStr []) = JStr s \<and> str_lower s = ''heatmap'' \<longrightarrow>
        (\<exists>t. chart_table lib df spec = Inr t \<and>
           set (df_columns t) \<subseteq> json_label ` set (get_columns_for_chart spec) \<and>
           (let numeric_df = select_dtypes_number (dropna_rows (dropna_columns (df_select (df_columns t) t)))
            in 2 \<le> length numeric_df \<and>
               (\<forall>c\<in>set numeric_df. is_number (col_dtype c) \<and>
                  col_name c \<in> json_label ` set (get_columns_for_chart spec))))"
    using generate_chart_heatmap [of lib df spec] by blast
  have d: "length (select_dtypes_number three_numeric) = 3"
    by (simp add: three_numeric_def select_dtypes_number_def is_number_def)
  show ?thesis
    using get_columns_for_chart_nonempty [of spec] get_columns_for_chart_subset [of spec]
      a b c d heatmap_spec_fails [of lib] heatmap_all_columns
    by blast
qed

theorem generate_chart_selects_columns_witness:
  "chart_table example_library three_numeric heatmap_spec =
     Inr [\<lparr>col_name = ''a'', col_dtype = Int64, col_cells = [IntV 1, IntV 2]\<rparr>] \<and>
   set (df_columns [\<lparr>col_name = ''a'', col_dtype = Int64, col_cells = [IntV 1, IntV 2]\<rparr>])
     \<subseteq> json_label ` set (get_columns_for_chart heatmap_spec)"
  using generate_chart_selects_columns [where lib = example_library and df = three_numeric
      and spec = heatmap_spec]
    heatmap_spec_chart_table [where lib = example_library]
  by (simp add: get_columns_for_chart_def heatmap_spec_def dict_get_def dict_get_default_def)





















lemmas render_eval =
  chart_table_def filtered_table_def aggregated_table_def get_columns_for_chart_def
  apply_aggregation_def agg_map_def reset_index_def table_eval dict_get_def dict_get_default_def
  json_in_def Let_def

lemma sales_counted:
  "chart_table count_library sales_table (sales_spec ''count'') =
     Inr [\<lparr>col_name = ''city'', col_dtype = Object, col_cells = [StrV ''a'', StrV ''b'']\<rparr>,
          \<lparr>col_name = ''sales'', col_dtype = Int64, col_cells = [IntV 2, IntV 1]\<rparr>]"
  by (simp add: sales_table_def sales_spec_def count_library_def example_library_def render_eval
      List.map_filter_simps)




end
